theory Spec2Isabelle
  imports Main "HOL-Library.Sublist"
begin

section \<open>JavaScript strings\<close>

text \<open>
  A JavaScript string is a sequence of UTF-16 code units. It is modelled as a
  \<open>string\<close>, a list of 8-bit characters: a character is a code unit below 256, and
  strings with higher code units are outside the model.
  \<open>str_includes s sub\<close> is \<open>s.includes(sub)\<close>: \<open>sub\<close> occurs in \<open>s\<close> as a
  contiguous block.
\<close>

fun str_includes :: "string \<Rightarrow> string \<Rightarrow> bool" where
  "str_includes [] sub = (sub = [])"
| "str_includes (c # cs) sub = (prefix sub (c # cs) \<or> str_includes cs sub)"

text \<open>\<open>xs.join(sep)\<close> on an array of strings.\<close>

fun join :: "string \<Rightarrow> string list \<Rightarrow> string" where
  "join sep [] = []"
| "join sep [x] = x"
| "join sep (x # y # ys) = x @ sep @ join sep (y # ys)"

text \<open>The decimal rendering of a non-negative integer inside a template literal.\<close>

fun show_nat :: "nat \<Rightarrow> string" where
  "show_nat n =
     (if n < 10 then [char_of (48 + n)]
      else show_nat (n div 10) @ [char_of (48 + n mod 10)])"

declare show_nat.simps [simp del]

text \<open>
  \<open>a || d\<close> where \<open>a\<close> is a string that may be \<open>undefined\<close> or \<open>null\<close>: the
  empty string is falsy as well.
\<close>

definition or_default :: "string option \<Rightarrow> string \<Rightarrow> string" where
  "or_default a d = (case a of None \<Rightarrow> d | Some s \<Rightarrow> if s = [] then d else s)"

text \<open>
  \<open>s.trim()\<close>: white space and line terminators are removed at both ends. Of the
  code units JavaScript counts as such, those below 256 are TAB, LF, VT, FF, CR, SPACE
  and the no-break space U+00A0.
\<close>

definition is_space :: "char \<Rightarrow> bool" where
  "is_space c = (c = CHR 0x09 \<or> c = CHR 0x0A \<or> c = CHR 0x0B \<or> c = CHR 0x0C
                 \<or> c = CHR 0x0D \<or> c = CHR 0x20 \<or> c = CHR 0xA0)"

definition trim :: "string \<Rightarrow> string" where
  "trim s = rev (dropWhile is_space (rev (dropWhile is_space s)))"

text \<open>
  \<open>s.replace(/^["'](.*)["']$/, '$1')\<close>: the pattern has no flag, so it matches the
  whole string only: a quote character first, a quote character last, and between them
  no line terminator (which \<open>.\<close> does not match). A match is replaced by what lies
  between the two quotes; without a match the string is unchanged.
\<close>

definition is_quote :: "char \<Rightarrow> bool" where
  "is_quote c = (c = CHR 0x22 \<or> c = CHR 0x27)"

definition is_line_terminator :: "char \<Rightarrow> bool" where
  "is_line_terminator c = (c = CHR 0x0A \<or> c = CHR 0x0D)"

definition strip_quotes :: "string \<Rightarrow> string" where
  "strip_quotes s =
     (if 2 \<le> length s \<and> is_quote (hd s) \<and> is_quote (last s)
         \<and> list_all (\<lambda>c. \<not> is_line_terminator c) (butlast (tl s))
      then butlast (tl s) else s)"


section \<open>Data model (src/utils/search.ts, src/utils/types.ts)\<close>

record SearchResult =
  title :: string
  link :: string
  snippet :: string
  position :: nat

record AgentTraceStep =
  thought :: string
  action :: string
  observation :: string
  reflection :: "string option"

record AgentResponse =
  traceSteps :: "AgentTraceStep list"
  finalOutput :: string

text \<open>A thrown JavaScript error value: its \<open>name\<close> and its \<open>message\<close>.\<close>

datatype js_error = JsError (err_name: string) (err_message: string)


section \<open>The outside world\<close>

text \<open>
  What \<open>fetch\<close> resolves to: \<open>response.ok\<close>, \<open>response.status\<close>, what
  \<open>response.text()\<close> gives and what \<open>response.json()\<close> gives. Both readers may
  throw; of the parsed body only the field \<open>organic\<close> is read, and it may be missing.
\<close>

record http_response =
  resp_ok :: bool
  resp_status :: nat
  resp_text :: "js_error + string"
  resp_json :: "js_error + SearchResult list option"

text \<open>
  The environment of one run: the two environment variables, the language model and
  the search provider. The model's answer to a request may depend on the number of
  requests made before it and on the system and user messages; it is either a thrown
  error or the value of \<open>response.choices[0]?.message?.content\<close>. The provider's
  answer to a \<open>fetch\<close> may depend on the number of earlier fetches and on the query
  posted; a transport error and the abort after 20 seconds are thrown errors.
\<close>

record environment =
  OPENAI_API_KEY :: "string option"
  SERPER_API_KEY :: "string option"
  chat_completions_create :: "nat \<Rightarrow> string \<Rightarrow> string \<Rightarrow> js_error + string option"
  fetch_serper :: "nat \<Rightarrow> string \<Rightarrow> js_error + http_response"

text \<open>
  The effects of a run, oldest first: the (system, user) messages of every model
  request, the query of every fetch, and the milliseconds of every back-off wait.
\<close>

record world =
  llm_log :: "(string \<times> string) list"
  fetch_log :: "string list"
  sleep_log :: "nat list"

definition sleep :: "nat \<Rightarrow> world \<Rightarrow> world" where
  "sleep ms w = w\<lparr>sleep_log := sleep_log w @ [ms]\<rparr>"


section \<open>Search gateway (src/utils/search.ts)\<close>

definition generateMockResults :: "string \<Rightarrow> SearchResult list" where
  \<open>generateMockResults query =
    [ \<lparr>title = ''Information about '' @ query @ '' - Resource 1'',
       link = ''https://example.com/resource1'',
       snippet = ''This is a comprehensive resource about '' @ query
                 @ '' with detailed information and analysis.'',
       position = 1\<rparr>,
      \<lparr>title = query @ '' - Wikipedia'',
       link = ''https://en.wikipedia.org/wiki/example'',
       snippet = query
                 @ '' refers to a topic of interest with various aspects and considerations worth exploring.'',
       position = 2\<rparr>,
      \<lparr>title = ''Latest research on '' @ query,
       link = ''https://example.org/research'',
       snippet = ''Recent studies and analyses regarding '' @ query
                 @ '' have shown interesting patterns and insights.'',
       position = 3\<rparr>,
      \<lparr>title = query @ '': A comprehensive guide'',
       link = ''https://example.net/guide'',
       snippet = ''Our guide provides a thorough examination of '' @ query
                 @ '' from multiple perspectives.'',
       position = 4\<rparr>,
      \<lparr>title = ''Expert opinions on '' @ query,
       link = ''https://example.com/expert-analysis'',
       snippet = ''Leading experts have shared their thoughts and analyses on '' @ query
                 @ '' and related topics.'',
       position = 5\<rparr> ]\<close>

text \<open>What one pass through the body of the retry loop does to the loop.\<close>

datatype attempt_result = AttemptReturn "SearchResult list" | AttemptContinue

text \<open>
  The \<open>try\<close> block of one attempt. A throw leaves the block with \<open>Inl\<close>; the fetch
  it made stays in the log.
\<close>

definition search_attempt_try ::
  "environment \<Rightarrow> string \<Rightarrow> nat \<Rightarrow> world \<Rightarrow> (js_error + attempt_result) \<times> world" where
  "search_attempt_try env cleanedQuery attempt w =
     (let w1 = w\<lparr>fetch_log := fetch_log w @ [cleanedQuery]\<rparr> in
      case fetch_serper env (length (fetch_log w)) cleanedQuery of
        Inl e \<Rightarrow> (Inl e, w1)
      | Inr response \<Rightarrow>
          if \<not> resp_ok response then
            (case resp_text response of
               Inl e \<Rightarrow> (Inl e, w1)
             | Inr errorText \<Rightarrow>
                 if attempt = 3 then (Inr (AttemptReturn (generateMockResults cleanedQuery)), w1)
                 else (Inr AttemptContinue, sleep (attempt * 1000) w1))
          else
            (case resp_json response of
               Inl e \<Rightarrow> (Inl e, w1)
             | Inr None \<Rightarrow>
                 if attempt = 3 then (Inr (AttemptReturn (generateMockResults cleanedQuery)), w1)
                 else (Inr AttemptContinue, w1)
             | Inr (Some organic) \<Rightarrow>
                 if length organic = 0 then
                   if attempt = 3
                   then (Inr (AttemptReturn (generateMockResults cleanedQuery)), w1)
                   else (Inr AttemptContinue, w1)
                 else (Inr (AttemptReturn organic), w1)))"

text \<open>The attempt with its \<open>catch\<close> block.\<close>

definition search_attempt ::
  "environment \<Rightarrow> string \<Rightarrow> nat \<Rightarrow> world \<Rightarrow> attempt_result \<times> world" where
  "search_attempt env cleanedQuery attempt w =
     (case search_attempt_try env cleanedQuery attempt w of
        (Inl error, w1) \<Rightarrow>
          if attempt = 3 then (AttemptReturn (generateMockResults cleanedQuery), w1)
          else (AttemptContinue, sleep (attempt * 1500) w1)
      | (Inr r, w1) \<Rightarrow> (r, w1))"

text \<open>\<open>for (let attempt = 1; attempt <= 3; attempt++)\<close> and the return after it.\<close>

function search_loop ::
  "environment \<Rightarrow> string \<Rightarrow> nat \<Rightarrow> world \<Rightarrow> (js_error + SearchResult list) \<times> world" where
  "search_loop env cleanedQuery attempt w =
     (if attempt \<le> 3 then
        (case search_attempt env cleanedQuery attempt w of
           (AttemptReturn results, w1) \<Rightarrow> (Inr results, w1)
         | (AttemptContinue, w1) \<Rightarrow> search_loop env cleanedQuery (attempt + 1) w1)
      else (Inr (generateMockResults cleanedQuery), w))"
  by pat_completeness auto
termination
  by (relation "measure (\<lambda>(env, q, attempt, w). 4 - attempt)") auto

declare search_loop.simps [simp del]

text \<open>
  An \<open>async\<close> function returns \<open>Inr\<close> of its value or \<open>Inl\<close> of the error its
  promise rejects with, together with the world it leaves.
\<close>

definition performSearch ::
  "environment \<Rightarrow> string \<Rightarrow> world \<Rightarrow> (js_error + SearchResult list) \<times> world" where
  "performSearch env query w =
     (case SERPER_API_KEY env of
        None \<Rightarrow> (Inr (generateMockResults query), w)
      | Some apiKey \<Rightarrow>
          if apiKey = [] then (Inr (generateMockResults query), w)
          else search_loop env (strip_quotes query) 1 w)"


section \<open>Reasoning engine (src/utils/llm.ts)\<close>

subsection \<open>Model requests\<close>

definition initOpenAI :: "environment \<Rightarrow> js_error + unit" where
  "initOpenAI env =
     (case OPENAI_API_KEY env of
        None \<Rightarrow> Inl (JsError ''Error'' ''OPENAI_API_KEY is not defined in environment variables'')
      | Some apiKey \<Rightarrow>
          if apiKey = []
          then Inl (JsError ''Error'' ''OPENAI_API_KEY is not defined in environment variables'')
          else Inr ())"

text \<open>
  \<open>await openai.chat.completions.create(...)\<close> with one system and one user message,
  followed by the read of \<open>response.choices[0]?.message?.content\<close>.
\<close>

definition log_request :: "string \<Rightarrow> string \<Rightarrow> world \<Rightarrow> world" where
  "log_request system_content user_content w =
     w\<lparr>llm_log := llm_log w @ [(system_content, user_content)]\<rparr>"

definition create_completion ::
  "environment \<Rightarrow> string \<Rightarrow> string \<Rightarrow> world \<Rightarrow> (js_error + string option) \<times> world" where
  "create_completion env system_content user_content w =
     (chat_completions_create env (length (llm_log w)) system_content user_content,
      log_request system_content user_content w)"

definition planning_system :: string where
  "planning_system =
     ''You are a helpful research agent that creates detailed plans for research questions.''"

definition refinement_system :: string where
  "refinement_system =
     ''You are a helpful research agent that generates refined search queries. You always output just the plain search query without any quotation marks or other decorations.''"

definition analysis_system :: string where
  "analysis_system =
     ''You are a helpful research agent that analyzes search results for relevance and information value.''"

definition final_system :: string where
  "final_system =
     ''You are a helpful research assistant that generates comprehensive, well-structured answers based on research insights.''"

subsection \<open>Planning\<close>

definition planning_context_section :: "string \<Rightarrow> string" where
  \<open>planning_context_section previousContext =
     (if previousContext \<noteq> [] then
        ''\<newline>Previous conversation context:\<newline>'' @ previousContext
        @ ''\<newline>\<newline>This appears to be a follow-up question. Consider the previous context when planning your research.''
      else [])\<close>

definition planningPrompt :: "string \<Rightarrow> SearchResult list \<Rightarrow> string \<Rightarrow> string" where
  \<open>planningPrompt query searchResults previousContext =
     ''\<newline>You are a research agent tasked with answering: "'' @ query @ ''"\<newline>''
     @ ''\<newline>Below are initial search results:\<newline>''
     @ join ''\<newline>''
         (map (\<lambda>(i, r). show_nat (i + 1) @ ''. '' @ title r @ '' - '' @ link r)
              (enumerate 0 searchResults))
     @ ''\<newline>\<newline>Create a plan for how you'll approach this research question. What are the key aspects to investigate?''
     @ planning_context_section previousContext @ ''\<newline>''\<close>

text \<open>The step the function returns, from the content of the model's response.\<close>

definition planning_step :: "string \<Rightarrow> string option \<Rightarrow> AgentTraceStep" where
  \<open>planning_step query content =
     (let plan = or_default content ''No plan generated.'' in
      \<lparr>thought = ''I need to plan how to approach this research question.'',
       action = ''Initial planning for query: "'' @ query @ ''"'',
       observation = ''Received initial search results and created a research plan.'',
       reflection = Some plan\<rparr>)\<close>

definition generatePlanningStep ::
  "environment \<Rightarrow> string \<Rightarrow> SearchResult list \<Rightarrow> string \<Rightarrow> world
     \<Rightarrow> (js_error + AgentTraceStep) \<times> world" where
  "generatePlanningStep env query searchResults previousContext w =
     (case create_completion env planning_system
             (planningPrompt query searchResults previousContext) w of
        (Inl e, w1) \<Rightarrow> (Inl e, w1)
      | (Inr content, w1) \<Rightarrow> (Inr (planning_step query content), w1))"

subsection \<open>Query refinement\<close>

text \<open>The rendering of one trace step, shared by the refinement and the final prompt.\<close>

definition render_step :: "nat \<times> AgentTraceStep \<Rightarrow> string" where
  \<open>render_step = (\<lambda>(i, step).
     ''Step '' @ show_nat (i + 1) @ '':\<newline>Thought: '' @ thought step
     @ ''\<newline>Action: '' @ action step
     @ ''\<newline>Observation: '' @ observation step
     @ ''\<newline>Reflection: '' @ or_default (reflection step) ''N/A'')\<close>

definition traceContext :: "AgentTraceStep list \<Rightarrow> string" where
  \<open>traceContext steps = join ''\<newline>\<newline>'' (map render_step (enumerate 0 steps))\<close>

definition refinementPrompt :: "string \<Rightarrow> AgentTraceStep list \<Rightarrow> string" where
  \<open>refinementPrompt originalQuery steps =
     ''\<newline>Original query: "'' @ originalQuery @ ''"\<newline>''
     @ ''\<newline>Research progress so far:\<newline>''
     @ traceContext steps
     @ ''\<newline>\<newline>Based on the research so far, generate a refined search query that will help gather more specific \<newline>''
     @ ''information. The new query should be more targeted and help fill gaps in the current research.\<newline>''
     @ ''\<newline>IMPORTANT: Output only the plain search query text. Do not include any quotation marks, brackets,\<newline>''
     @ ''or other special characters around your query. Just provide the raw search terms.\<newline>''
     @ ''\<newline>For example:\<newline>''
     @ ''Good: Atlanta best public high schools 2023 rankings\<newline>''
     @ ''Bad: "Atlanta best public high schools 2023 rankings"\<newline>''\<close>

text \<open>
  The query the function returns, from the content of the model's response:
  \<open>content?.trim() || originalQuery\<close>, then without wrapping quotes.
\<close>

definition refined_query :: "string \<Rightarrow> string option \<Rightarrow> string" where
  "refined_query originalQuery content =
     (let refinedQuery = or_default (map_option trim content) originalQuery
      in strip_quotes refinedQuery)"

definition generateRefinedQuery ::
  "environment \<Rightarrow> string \<Rightarrow> AgentTraceStep list \<Rightarrow> world \<Rightarrow> (js_error + string) \<times> world" where
  "generateRefinedQuery env originalQuery steps w =
     (case create_completion env refinement_system (refinementPrompt originalQuery steps) w of
        (Inl e, w1) \<Rightarrow> (Inl e, w1)
      | (Inr content, w1) \<Rightarrow> (Inr (refined_query originalQuery content), w1))"

subsection \<open>Analysis of search results\<close>

text \<open>The test both the loop and the analysis apply to a result's link.\<close>

definition is_mock_link :: "string \<Rightarrow> bool" where
  "is_mock_link l =
     (str_includes l ''example.com'' \<or> str_includes l ''example.org''
      \<or> str_includes l ''example.net'' \<or> str_includes l ''wikipedia.org/wiki/example'')"

definition hasMockResults :: "SearchResult list \<Rightarrow> bool" where
  "hasMockResults searchResults = list_all (\<lambda>result. is_mock_link (link result)) searchResults"

definition render_result :: "nat \<times> SearchResult \<Rightarrow> string" where
  \<open>render_result = (\<lambda>(i, r).
     ''Result '' @ show_nat (i + 1) @ '':\<newline>Title: '' @ title r
     @ ''\<newline>URL: '' @ link r @ ''\<newline>Snippet: '' @ snippet r)\<close>

definition mockResultsWarning :: "SearchResult list \<Rightarrow> string" where
  \<open>mockResultsWarning searchResults =
     (if hasMockResults searchResults then
        ''NOTE: The search returned no actual results from the web. The results below are generated placeholders. \<newline>''
        @ ''    You should continue searching with different terms or consider that the information may not be readily available online.''
      else [])\<close>

definition analysisPrompt :: "string \<Rightarrow> SearchResult list \<Rightarrow> string" where
  \<open>analysisPrompt query searchResults =
     ''\<newline>Search query: "'' @ query @ ''"\<newline>\<newline>''
     @ mockResultsWarning searchResults
     @ ''\<newline>\<newline>Search results:\<newline>''
     @ join ''\<newline>\<newline>'' (map render_result (enumerate 0 searchResults))
     @ ''\<newline>\<newline>Analyze these search results. How relevant are they to our research question? \<newline>''
     @ ''What new information do they provide? Do we have sufficient information now, \<newline>''
     @ ''or should we search for something else?\<newline>''\<close>

text \<open>The step the function returns, from the content of the model's response.\<close>

definition analysis_step :: "string \<Rightarrow> SearchResult list \<Rightarrow> string option \<Rightarrow> AgentTraceStep" where
  \<open>analysis_step query searchResults content =
     (let analysis = or_default content ''No analysis generated.'';
          obs = (if hasMockResults searchResults then
                   ''Analyzed '' @ show_nat (length searchResults)
                   @ '' placeholder results (no actual search results were found).''
                 else
                   ''Analyzed '' @ show_nat (length searchResults)
                   @ '' search results for relevance.'')
      in \<lparr>thought = ''I need to evaluate if these search results are helpful for my research.'',
          action = ''Analyzing results from query: "'' @ query @ ''"'',
          observation = obs,
          reflection = Some analysis\<rparr>)\<close>

definition analyzeSearchResults ::
  "environment \<Rightarrow> string \<Rightarrow> SearchResult list \<Rightarrow> AgentTraceStep list \<Rightarrow> world
     \<Rightarrow> (js_error + AgentTraceStep) \<times> world" where
  "analyzeSearchResults env query searchResults steps w =
     (case create_completion env analysis_system (analysisPrompt query searchResults) w of
        (Inl e, w1) \<Rightarrow> (Inl e, w1)
      | (Inr content, w1) \<Rightarrow> (Inr (analysis_step query searchResults content), w1))"


subsection \<open>The refinement loop\<close>

text \<open>
  The search step is pushed onto \<open>traceSteps\<close> and then updated through the variable
  \<open>searchStep\<close>, which aliases the array element: the update is an update of the
  array at the index the step was pushed to.
\<close>

definition set_observation :: "nat \<Rightarrow> string \<Rightarrow> AgentTraceStep list \<Rightarrow> AgentTraceStep list" where
  "set_observation idx obs steps = steps[idx := (steps ! idx)\<lparr>observation := obs\<rparr>]"

definition append_observation ::
  "nat \<Rightarrow> string \<Rightarrow> AgentTraceStep list \<Rightarrow> AgentTraceStep list" where
  "append_observation idx extra steps =
     steps[idx := (steps ! idx)\<lparr>observation := observation (steps ! idx) @ extra\<rparr>]"

definition failure_note :: string where
  "failure_note = '' After multiple search failures, proceeding with available information.''"

definition new_search_step :: "string \<Rightarrow> AgentTraceStep" where
  \<open>new_search_step refinedQuery =
     \<lparr>thought = ''I need to search for more specific information about this topic.'',
      action = ''Searching for: "'' @ refinedQuery @ ''"'',
      observation = ''Waiting for search results...'',
      reflection = None\<rparr>\<close>

text \<open>How one pass through the loop body leaves it.\<close>

datatype iteration_result = IterBreak | IterNext

text \<open>
  The test on the analysis step: \<open>reflection?.includes("sufficient information") ||
  reflection?.includes("enough information")\<close>.
\<close>

definition has_sufficiency_marker :: "AgentTraceStep \<Rightarrow> bool" where
  "has_sufficiency_marker step =
     (case reflection step of
        None \<Rightarrow> False
      | Some r \<Rightarrow> str_includes r ''sufficient information''
                  \<or> str_includes r ''enough information'')"

text \<open>
  The end of the \<open>try\<close> block: the analysis request, the push of its step and the test
  for a sufficiency marker. A throw leaves the counter and the steps as they are.
\<close>

definition analyze_and_check ::
  "environment \<Rightarrow> string \<Rightarrow> SearchResult list \<Rightarrow> nat \<Rightarrow> AgentTraceStep list \<Rightarrow> world
     \<Rightarrow> (js_error + iteration_result) \<times> nat \<times> AgentTraceStep list \<times> world" where
  "analyze_and_check env refinedQuery searchResults consecutiveFailures steps w =
     (case analyzeSearchResults env refinedQuery searchResults steps w of
        (Inl e, w1) \<Rightarrow> (Inl e, consecutiveFailures, steps, w1)
      | (Inr analysisStep, w1) \<Rightarrow>
          (let steps1 = steps @ [analysisStep] in
           if has_sufficiency_marker analysisStep
           then (Inr IterBreak, consecutiveFailures, steps1, w1)
           else (Inr IterNext, consecutiveFailures, steps1, w1)))"

text \<open>The \<open>try\<close> block of one round; \<open>idx\<close> is the index of the round's search step.\<close>

definition iteration_try ::
  "environment \<Rightarrow> string \<Rightarrow> nat \<Rightarrow> nat \<Rightarrow> AgentTraceStep list \<Rightarrow> world
     \<Rightarrow> (js_error + iteration_result) \<times> nat \<times> AgentTraceStep list \<times> world" where
  "iteration_try env refinedQuery idx consecutiveFailures steps w =
     (case performSearch env refinedQuery w of
        (Inl e, w1) \<Rightarrow> (Inl e, consecutiveFailures, steps, w1)
      | (Inr searchResults, w1) \<Rightarrow>
          if hasMockResults searchResults then
            (let cf1 = consecutiveFailures + 1;
                 steps1 = set_observation idx
                   ''Search returned no real results (using generated placeholders instead).'' steps
             in if cf1 \<ge> 2 then (Inr IterBreak, cf1, append_observation idx failure_note steps1, w1)
                else analyze_and_check env refinedQuery searchResults cf1 steps1 w1)
          else
            (let steps1 = set_observation idx
                   (''Found '' @ show_nat (length searchResults) @ '' results for refined query.'')
                   steps
             in analyze_and_check env refinedQuery searchResults 0 steps1 w1))"

text \<open>
  One round: the refined query (outside the \<open>try\<close>, so its throw leaves the
  function), the push of the search step, the \<open>try\<close> block and its \<open>catch\<close>.
\<close>

definition research_iteration ::
  "environment \<Rightarrow> string \<Rightarrow> nat \<Rightarrow> AgentTraceStep list \<Rightarrow> world
     \<Rightarrow> (js_error + iteration_result) \<times> nat \<times> AgentTraceStep list \<times> world" where
  "research_iteration env originalQuery consecutiveFailures steps w =
     (case generateRefinedQuery env originalQuery steps w of
        (Inl e, w1) \<Rightarrow> (Inl e, consecutiveFailures, steps, w1)
      | (Inr refinedQuery, w1) \<Rightarrow>
          (let idx = length steps;
               steps1 = steps @ [new_search_step refinedQuery]
           in case iteration_try env refinedQuery idx consecutiveFailures steps1 w1 of
                (Inr r, cf2, steps2, w2) \<Rightarrow> (Inr r, cf2, steps2, w2)
              | (Inl error, cf2, steps2, w2) \<Rightarrow>
                  (let steps3 = set_observation idx ''Error occurred during search.'' steps2;
                       cf3 = cf2 + 1
                   in if cf3 \<ge> 2
                      then (Inr IterBreak, cf3, append_observation idx failure_note steps3, w2)
                      else (Inr IterNext, cf3, steps3, w2))))"

text \<open>
  \<open>for (let i = 0; i < maxIterations; i++)\<close>. The function returns nothing; its
  effect is the array it leaves, which is returned here together with the world, on a
  throw as well.
\<close>

function research_loop ::
  "environment \<Rightarrow> string \<Rightarrow> nat \<Rightarrow> nat \<Rightarrow> nat \<Rightarrow> AgentTraceStep list \<Rightarrow> world
     \<Rightarrow> (js_error + unit) \<times> AgentTraceStep list \<times> world" where
  "research_loop env originalQuery maxIterations i consecutiveFailures steps w =
     (if i < maxIterations then
        (case research_iteration env originalQuery consecutiveFailures steps w of
           (Inl e, cf1, steps1, w1) \<Rightarrow> (Inl e, steps1, w1)
         | (Inr IterBreak, cf1, steps1, w1) \<Rightarrow> (Inr (), steps1, w1)
         | (Inr IterNext, cf1, steps1, w1) \<Rightarrow>
             research_loop env originalQuery maxIterations (i + 1) cf1 steps1 w1)
      else (Inr (), steps, w))"
  by pat_completeness auto
termination
  by (relation "measure (\<lambda>(env, q, maxIterations, i, cf, steps, w). maxIterations - i)") auto

declare research_loop.simps [simp del]

definition performIterativeResearch ::
  "environment \<Rightarrow> string \<Rightarrow> string \<Rightarrow> AgentTraceStep list \<Rightarrow> nat \<Rightarrow> world
     \<Rightarrow> (js_error + unit) \<times> AgentTraceStep list \<times> world" where
  "performIterativeResearch env originalQuery plan steps maxIterations w =
     research_loop env originalQuery maxIterations 0 0 steps w"

subsection \<open>Synthesis\<close>

text \<open>\<open>xs.slice(-n)\<close>: the last \<open>n\<close> elements, or all of them when there are fewer.\<close>

definition slice_last :: "nat \<Rightarrow> 'a list \<Rightarrow> 'a list" where
  "slice_last n xs = drop (length xs - n) xs"

text \<open>The filter of \<open>generateFinalOutput\<close>; a missing or empty reflection is falsy.\<close>

definition is_analysis_step :: "AgentTraceStep \<Rightarrow> bool" where
  "is_analysis_step step =
     (str_includes (action step) ''Analyzing results''
      \<and> (case reflection step of None \<Rightarrow> False | Some r \<Rightarrow> r \<noteq> []))"

text \<open>
  On an empty array \<open>traceSteps[0]\<close> is \<open>undefined\<close>, and rendering it throws a
  TypeError at the read of its \<open>thought\<close>.
\<close>

definition essentialSteps :: "AgentTraceStep list \<Rightarrow> js_error + AgentTraceStep list" where
  "essentialSteps steps =
     (case steps of
        [] \<Rightarrow> Inl (JsError ''TypeError''
                 ''Cannot read properties of undefined (reading 'thought')'')
      | first # rest \<Rightarrow> Inr (first # slice_last 2 (filter is_analysis_step steps)))"

definition final_context_section :: "string \<Rightarrow> string" where
  \<open>final_context_section previousContext =
     (if previousContext \<noteq> [] then
        ''\<newline>\<newline>Previous conversation context:\<newline>'' @ previousContext
        @ ''\<newline>\<newline>This appears to be a follow-up question. Ensure your response builds on the previous conversation.''
      else [])\<close>

definition finalPrompt :: "string \<Rightarrow> AgentTraceStep list \<Rightarrow> string \<Rightarrow> string" where
  \<open>finalPrompt originalQuery essential previousContext =
     ''\<newline>Original research question: "'' @ originalQuery @ ''"\<newline>''
     @ ''\<newline>Key research insights:\<newline>''
     @ traceContext essential @ final_context_section previousContext
     @ ''\<newline>\<newline>Based on these research insights, generate a comprehensive answer to the original question.\<newline>''
     @ ''Your answer should:\<newline>''
     @ ''1. Include a clear introduction\<newline>''
     @ ''2. Present key findings with bullet points where appropriate\<newline>''
     @ ''3. Organize information in numbered sections when helpful\<newline>''
     @ ''4. Include relevant details but be concise\<newline>''
     @ ''5. End with a brief conclusion noting any limitations of the research\<newline>''
     @ ''\<newline>Respond directly to the question without disclaimers about the research process.\<newline>''\<close>

definition generateFinalOutput ::
  "environment \<Rightarrow> string \<Rightarrow> AgentTraceStep list \<Rightarrow> string \<Rightarrow> world
     \<Rightarrow> (js_error + string) \<times> world" where
  "generateFinalOutput env originalQuery steps previousContext w =
     (case essentialSteps steps of
        Inl e \<Rightarrow> (Inl e, w)
      | Inr essential \<Rightarrow>
          (case create_completion env final_system
                  (finalPrompt originalQuery essential previousContext) w of
             (Inl e, w1) \<Rightarrow> (Inl e, w1)
           | (Inr content, w1) \<Rightarrow>
               (Inr (or_default content
                       ''Unable to generate a response based on the research.''), w1)))"

subsection \<open>The whole run\<close>

definition generateResearchResponse ::
  "environment \<Rightarrow> string \<Rightarrow> SearchResult list \<Rightarrow> string \<Rightarrow> world
     \<Rightarrow> (js_error + AgentResponse) \<times> world" where
  "generateResearchResponse env query initialSearchResults previousContext w =
     (case initOpenAI env of
        Inl e \<Rightarrow> (Inl e, w)
      | Inr openai \<Rightarrow>
          (case generatePlanningStep env query initialSearchResults previousContext w of
             (Inl e, w1) \<Rightarrow> (Inl e, w1)
           | (Inr planningStep, w1) \<Rightarrow>
               (case performIterativeResearch env query
                       (or_default (reflection planningStep) []) ([] @ [planningStep]) 2 w1 of
                  (Inl e, steps, w2) \<Rightarrow> (Inl e, w2)
                | (Inr u, steps, w2) \<Rightarrow>
                    (case generateFinalOutput env query steps previousContext w2 of
                       (Inl e, w3) \<Rightarrow> (Inl e, w3)
                     | (Inr output, w3) \<Rightarrow>
                         (Inr \<lparr>traceSteps = steps, finalOutput = output\<rparr>, w3)))))"


section \<open>The request handler's use of the engine (src/app/api/ask/route.ts)\<close>

record ChatMessage =
  msg_id :: string
  timestamp :: nat
  content :: string
  isUser :: bool
  response :: "AgentResponse option"

definition render_message :: "ChatMessage \<Rightarrow> string" where
  "render_message msg =
     (if isUser msg then ''User: '' @ content msg else ''Assistant: '' @ content msg)"

text \<open>
  The chat store is not among the sources: what \<open>getChat(chatId)\<close> returns is the
  parameter \<open>chat\<close> (the messages of the chat, when there is one), and the store's
  update with the response is left out.
\<close>

definition conversation_context :: "ChatMessage list option \<Rightarrow> string" where
  \<open>conversation_context chat =
     (case chat of
        None \<Rightarrow> []
      | Some messages \<Rightarrow>
          if length messages > 1
          then join ''\<newline>\<newline>'' (map render_message (slice_last 6 messages))
          else [])\<close>

definition processQuery ::
  "environment \<Rightarrow> string \<Rightarrow> ChatMessage list option \<Rightarrow> world
     \<Rightarrow> (js_error + AgentResponse) \<times> world" where
  "processQuery env query chat w =
     (case performSearch env query w of
        (Inl e, w1) \<Rightarrow> (Inl e, w1)
      | (Inr searchResults, w1) \<Rightarrow>
          generateResearchResponse env query searchResults (conversation_context chat) w1)"

section \<open>Vocabulary of the properties\<close>

subsection \<open>Search attempts\<close>

text \<open>
  How the retry loop treats what one \<open>fetch\<close> gave, read off the branches of
  \<open>performSearch\<close>: a response that is not ok (\<open>NonOk\<close>), anything thrown inside the
  \<open>try\<close> block (\<open>Raised\<close>: the fetch itself, a timeout, a reader of the body), a body
  without results (\<open>EmptySet\<close>), or \<open>None\<close> for a usable result set.
\<close>

datatype failure_kind = NonOk | Raised | EmptySet

definition attempt_kind :: "js_error + http_response \<Rightarrow> failure_kind option" where
  "attempt_kind r =
     (case r of
        Inl e \<Rightarrow> Some Raised
      | Inr resp \<Rightarrow>
          if \<not> resp_ok resp then
            (case resp_text resp of Inl e \<Rightarrow> Some Raised | Inr t \<Rightarrow> Some NonOk)
          else
            (case resp_json resp of
               Inl e \<Rightarrow> Some Raised
             | Inr None \<Rightarrow> Some EmptySet
             | Inr (Some organic) \<Rightarrow> if organic = [] then Some EmptySet else None))"

text \<open>The wait after a failed attempt that is not the last one.\<close>

definition backoff_delay :: "failure_kind \<Rightarrow> nat \<Rightarrow> nat list" where
  "backoff_delay k attempt =
     (case k of NonOk \<Rightarrow> [attempt * 1000] | Raised \<Rightarrow> [attempt * 1500] | EmptySet \<Rightarrow> [])"

subsection \<open>Concrete environments\<close>

text \<open>
  Environments with both API keys set, built from a model and a provider: a provider
  that cannot be reached, one that answers 500, one that answers with no results, one
  that answers with one result on a real domain; a model that answers \<open>ok\<close> to every
  request, one whose analysis requests fail, one whose refinement requests fail, and
  one that answers \<open>first\<close> to its first three requests and \<open>second\<close> afterwards.
\<close>

definition initial_world :: world where
  "initial_world = \<lparr>llm_log = [], fetch_log = [], sleep_log = []\<rparr>"

definition example_env ::
  "(nat \<Rightarrow> string \<Rightarrow> string \<Rightarrow> js_error + string option)
     \<Rightarrow> (nat \<Rightarrow> string \<Rightarrow> js_error + http_response) \<Rightarrow> environment" where
  "example_env chat fetch =
     \<lparr>OPENAI_API_KEY = Some ''sk-test'', SERPER_API_KEY = Some ''serper-test'',
      chat_completions_create = chat, fetch_serper = fetch\<rparr>"

definition fetch_unreachable :: "nat \<Rightarrow> string \<Rightarrow> js_error + http_response" where
  "fetch_unreachable i q = Inl (JsError ''TypeError'' ''fetch failed'')"

definition fetch_bad_status :: "nat \<Rightarrow> string \<Rightarrow> js_error + http_response" where
  "fetch_bad_status i q =
     Inr \<lparr>resp_ok = False, resp_status = 500, resp_text = Inr ''Internal Server Error'',
          resp_json = Inl (JsError ''SyntaxError'' ''Unexpected token'')\<rparr>"

definition fetch_no_results :: "nat \<Rightarrow> string \<Rightarrow> js_error + http_response" where
  "fetch_no_results i q =
     Inr \<lparr>resp_ok = True, resp_status = 200, resp_text = Inr ''{}'', resp_json = Inr (Some [])\<rparr>"

definition chat_ok :: "nat \<Rightarrow> string \<Rightarrow> string \<Rightarrow> js_error + string option" where
  "chat_ok i system_content user_content = Inr (Some ''ok'')"

definition real_result :: SearchResult where
  "real_result =
     \<lparr>title = ''Global EV Outlook'', link = ''https://www.iea.org/reports/global-ev-outlook'',
      snippet = ''Electric car sales keep rising.'', position = 1\<rparr>"

definition fetch_real :: "nat \<Rightarrow> string \<Rightarrow> js_error + http_response" where
  "fetch_real i q =
     Inr \<lparr>resp_ok = True, resp_status = 200, resp_text = Inr ''{}'',
          resp_json = Inr (Some [real_result])\<rparr>"

definition model_error :: js_error where
  "model_error = JsError ''APIConnectionError'' ''Connection error.''"

definition chat_analysis_fails :: "nat \<Rightarrow> string \<Rightarrow> string \<Rightarrow> js_error + string option" where
  "chat_analysis_fails i system_content user_content =
     (if system_content = analysis_system then Inl model_error else Inr (Some ''ok''))"

definition chat_refinement_fails :: "nat \<Rightarrow> string \<Rightarrow> string \<Rightarrow> js_error + string option" where
  "chat_refinement_fails i system_content user_content =
     (if system_content = refinement_system then Inl model_error else Inr (Some ''ok''))"


subsection \<open>Model requests and trace steps\<close>

text \<open>The reply the next model request gets in world \<open>w\<close>.\<close>

definition next_reply :: "environment \<Rightarrow> world \<Rightarrow> string \<Rightarrow> string \<Rightarrow> js_error + string option" where
  "next_reply env w system_content user_content =
     chat_completions_create env (length (llm_log w)) system_content user_content"

text \<open>The three observations a round writes into its search step.\<close>

definition placeholder_observation :: string where
  "placeholder_observation =
     ''Search returned no real results (using generated placeholders instead).''"

definition error_observation :: string where
  "error_observation = ''Error occurred during search.''"

definition found_observation :: "SearchResult list \<Rightarrow> string" where
  "found_observation rs = ''Found '' @ show_nat (length rs) @ '' results for refined query.''"

definition break_if :: "bool \<Rightarrow> iteration_result" where
  "break_if b = (if b then IterBreak else IterNext)"

text \<open>The three kinds of step of a trace, told apart by what the engine writes in them.\<close>

definition is_planning :: "string \<Rightarrow> AgentTraceStep \<Rightarrow> bool" where
  \<open>is_planning query step =
     (thought step = ''I need to plan how to approach this research question.''
      \<and> action step = ''Initial planning for query: "'' @ query @ ''"''
      \<and> (case reflection step of None \<Rightarrow> False | Some plan \<Rightarrow> plan \<noteq> []))\<close>

definition is_search :: "AgentTraceStep \<Rightarrow> bool" where
  "is_search step =
     (thought step = ''I need to search for more specific information about this topic.''
      \<and> reflection step = None)"

definition is_analysis :: "AgentTraceStep \<Rightarrow> bool" where
  "is_analysis step =
     (thought step = ''I need to evaluate if these search results are helpful for my research.''
      \<and> prefix ''Analyzing results from query: '' (action step)
      \<and> (case reflection step of None \<Rightarrow> False | Some r \<Rightarrow> r \<noteq> []))"

text \<open>The steps of one round: a search step, optionally followed by an analysis step.\<close>

fun round_shape :: "AgentTraceStep list \<Rightarrow> bool" where
  "round_shape [s] = is_search s"
| "round_shape [s, a] = (is_search s \<and> is_analysis a)"
| "round_shape steps = False"

text \<open>The number of logged model requests with a given system message.\<close>

definition count_requests :: "string \<Rightarrow> (string \<times> string) list \<Rightarrow> nat" where
  "count_requests system_content requests =
     length (filter (\<lambda>request. fst request = system_content) requests)"

text \<open>
  The failed model requests among \<open>requests\<close>, the first of which is request number
  \<open>n\<close>: the system message and the error of each, in order.
\<close>

fun failed_requests ::
  "environment \<Rightarrow> nat \<Rightarrow> (string \<times> string) list \<Rightarrow> (string \<times> js_error) list" where
  "failed_requests env n [] = []"
| "failed_requests env n (request # requests) =
     (case chat_completions_create env n (fst request) (snd request) of
        Inl e \<Rightarrow> [(fst request, e)]
      | Inr c \<Rightarrow> [])
     @ failed_requests env (Suc n) requests"

text \<open>The errors of the failed requests other than analysis requests.\<close>

definition failures_outside_analysis ::
  "environment \<Rightarrow> nat \<Rightarrow> (string \<times> string) list \<Rightarrow> js_error list" where
  "failures_outside_analysis env n requests =
     map snd (filter (\<lambda>failure. fst failure \<noteq> analysis_system) (failed_requests env n requests))"

text \<open>What a run that ends with \<open>r\<close> is expected to have had as such errors.\<close>

definition abort_errors :: "js_error + 'a \<Rightarrow> js_error list" where
  "abort_errors r = (case r of Inl e \<Rightarrow> [e] | Inr v \<Rightarrow> [])"

section \<open>The search gateway\<close>

lemma search_attempt_failed:
  assumes "attempt_kind (fetch_serper env (length (fetch_log w)) q) = Some k"
  shows "search_attempt env q a w =
     (if a = 3 then (AttemptReturn (generateMockResults q), w\<lparr>fetch_log := fetch_log w @ [q]\<rparr>)
      else (AttemptContinue,
            w\<lparr>fetch_log := fetch_log w @ [q], sleep_log := sleep_log w @ backoff_delay k a\<rparr>))"
  using assms
  by (auto simp: search_attempt_def search_attempt_try_def attempt_kind_def backoff_delay_def
        sleep_def Let_def split: sum.splits option.splits if_splits)

lemma search_attempt_usable:
  assumes "attempt_kind (fetch_serper env (length (fetch_log w)) q) = None"
  shows "\<exists>rs. rs \<noteq> [] \<and> search_attempt env q a w =
     (AttemptReturn rs, w\<lparr>fetch_log := fetch_log w @ [q]\<rparr>)"
  using assms
  by (auto simp: search_attempt_def search_attempt_try_def attempt_kind_def
        Let_def split: sum.splits option.splits if_splits)

lemma search_attempt_fetch_log:
  "fetch_log (snd (search_attempt env q a w)) = fetch_log w @ [q]"
  by (auto simp: search_attempt_def search_attempt_try_def sleep_def
        Let_def split: sum.splits option.splits if_splits prod.splits)

lemma search_attempt_llm_log:
  "llm_log (snd (search_attempt env q a w)) = llm_log w"
  by (auto simp: search_attempt_def search_attempt_try_def sleep_def
        Let_def split: sum.splits option.splits if_splits prod.splits)

lemma search_loop_Inr: "\<exists>rs. fst (search_loop env q a w) = Inr rs"
proof (induction env q a w rule: search_loop.induct)
  case (1 env q a w)
  show ?case
  proof (cases "a \<le> 3")
    case False
    then show ?thesis by (simp add: search_loop.simps)
  next
    case True
    obtain r w1 where r: "search_attempt env q a w = (r, w1)" by (cases "search_attempt env q a w")
    show ?thesis
    proof (cases r)
      case (AttemptReturn rs)
      with True r show ?thesis by (simp add: search_loop.simps)
    next
      case AttemptContinue
      with True r "1.IH" show ?thesis
        by (simp add: search_loop.simps[of env q a w])
    qed
  qed
qed

lemma performSearch_Inr: "\<exists>results. fst (performSearch env query w) = Inr results"
  by (simp add: performSearch_def search_loop_Inr split: option.splits)

text \<open>
  C7: whatever the provider does (a response that is not ok, a transport error, a
  timeout, an empty result set) and whether or not the API key is set, \<open>performSearch\<close>
  returns a sequence of results: its promise never rejects.
\<close>

theorem performSearch_never_raises:
  "\<exists>results. fst (performSearch env query w) = Inr results"
proof (cases "SERPER_API_KEY env")
  case None
  then show ?thesis by (simp add: performSearch_def)
next
  case (Some apiKey)
  then show ?thesis
    using search_loop_Inr[of env "strip_quotes query" 1 w] by (simp add: performSearch_def)
qed

lemma search_loop_last:
  assumes "attempt_kind (fetch_serper env (length (fetch_log w)) q) = Some k"
  shows "search_loop env q 3 w =
           (Inr (generateMockResults q), w\<lparr>fetch_log := fetch_log w @ [q]\<rparr>)"
  by (simp add: search_loop.simps[of env q 3 w] search_attempt_failed[OF assms])

lemma search_loop_retry:
  assumes "attempt_kind (fetch_serper env (length (fetch_log w)) q) = Some k"
    and "a < 3" and "a' = a + 1"
  shows "search_loop env q a w =
           search_loop env q a'
             (w\<lparr>fetch_log := fetch_log w @ [q], sleep_log := sleep_log w @ backoff_delay k a\<rparr>)"
  using assms(2,3) by (simp add: search_loop.simps[of env q a w] search_attempt_failed[OF assms(1)])

lemma search_loop_usable:
  assumes "attempt_kind (fetch_serper env (length (fetch_log w)) q) = None" and "a \<le> 3"
  shows "\<exists>rs. rs \<noteq> [] \<and> search_loop env q a w = (Inr rs, w\<lparr>fetch_log := fetch_log w @ [q]\<rparr>)"
proof -
  from search_attempt_usable[OF assms(1), of a] obtain rs where
    "rs \<noteq> []" "search_attempt env q a w = (AttemptReturn rs, w\<lparr>fetch_log := fetch_log w @ [q]\<rparr>)"
    by blast
  with assms(2) show ?thesis by (simp add: search_loop.simps[of env q a w])
qed

lemma search_loop_exhausted:
  assumes f0: "attempt_kind (fetch_serper env (length (fetch_log w)) q) = Some k0"
    and f1: "attempt_kind (fetch_serper env (length (fetch_log w) + 1) q) = Some k1"
    and f2: "attempt_kind (fetch_serper env (length (fetch_log w) + 2) q) = Some k2"
  shows "search_loop env q 1 w =
           (Inr (generateMockResults q),
            w\<lparr>fetch_log := fetch_log w @ [q, q, q],
              sleep_log := sleep_log w @ backoff_delay k0 1 @ backoff_delay k1 2\<rparr>)"
proof -
  let ?w1 = "w\<lparr>fetch_log := fetch_log w @ [q], sleep_log := sleep_log w @ backoff_delay k0 1\<rparr>"
  let ?w2 = "?w1\<lparr>fetch_log := fetch_log ?w1 @ [q], sleep_log := sleep_log ?w1 @ backoff_delay k1 2\<rparr>"
  have s1: "search_loop env q 1 w = search_loop env q 2 ?w1"
    by (rule search_loop_retry[OF f0]) simp_all
  have f1': "attempt_kind (fetch_serper env (length (fetch_log ?w1)) q) = Some k1"
    using f1 by simp
  have s2: "search_loop env q 2 ?w1 = search_loop env q 3 ?w2"
    by (rule search_loop_retry[OF f1']) simp_all
  have f2': "attempt_kind (fetch_serper env (length (fetch_log ?w2)) q) = Some k2"
    using f2 by simp
  have s3: "search_loop env q 3 ?w2 =
              (Inr (generateMockResults q), ?w2\<lparr>fetch_log := fetch_log ?w2 @ [q]\<rparr>)"
    by (rule search_loop_last[OF f2'])
  show ?thesis unfolding s1 s2 s3 by simp
qed

lemma performSearch_exhausted:
  assumes key: "SERPER_API_KEY env = Some apiKey" "apiKey \<noteq> []"
    and f0: "attempt_kind (fetch_serper env (length (fetch_log w)) (strip_quotes query)) = Some k0"
    and f1: "attempt_kind (fetch_serper env (length (fetch_log w) + 1) (strip_quotes query)) = Some k1"
    and f2: "attempt_kind (fetch_serper env (length (fetch_log w) + 2) (strip_quotes query)) = Some k2"
  shows "performSearch env query w =
           (Inr (generateMockResults (strip_quotes query)),
            w\<lparr>fetch_log := fetch_log w @ replicate 3 (strip_quotes query),
              sleep_log := sleep_log w @ backoff_delay k0 1 @ backoff_delay k1 2\<rparr>)"
proof -
  have "performSearch env query w = search_loop env (strip_quotes query) 1 w"
    using key by (simp add: performSearch_def)
  also note search_loop_exhausted[OF f0 f1 f2]
  finally show ?thesis by (simp add: numeral_3_eq_3)
qed

lemma strip_quotes_q: "strip_quotes ''q'' = ''q''"
  by (simp add: strip_quotes_def)

text \<open>
  C8 as stated fails: the wait is not one unit times the attempt index whatever the
  failure. Three attempts that all get a response that is not ok wait 1000 and 2000 ms,
  three that all throw wait 1500 and 3000 ms, three that all get an empty result set do
  not wait at all.
\<close>

theorem backoff_counterexample:
  "sleep_log (snd (performSearch (example_env chat_ok fetch_bad_status) ''q'' initial_world)) = [1000, 2000]
   \<and> sleep_log (snd (performSearch (example_env chat_ok fetch_unreachable) ''q'' initial_world)) = [1500, 3000]
   \<and> sleep_log (snd (performSearch (example_env chat_ok fetch_no_results) ''q'' initial_world)) = []"
proof -
  have a: "attempt_kind (fetch_serper (example_env chat_ok fetch_bad_status) n q) = Some NonOk" for n q
    by (simp add: example_env_def fetch_bad_status_def attempt_kind_def)
  have b: "attempt_kind (fetch_serper (example_env chat_ok fetch_unreachable) n q) = Some Raised" for n q
    by (simp add: example_env_def fetch_unreachable_def attempt_kind_def)
  have c: "attempt_kind (fetch_serper (example_env chat_ok fetch_no_results) n q) = Some EmptySet" for n q
    by (simp add: example_env_def fetch_no_results_def attempt_kind_def)
  have k: "SERPER_API_KEY (example_env chat f) = Some ''serper-test''" for chat f
    by (simp add: example_env_def)
  have ne: "''serper-test'' \<noteq> []" by simp
  show ?thesis
    by (simp add: performSearch_exhausted[OF k ne a a a]
          performSearch_exhausted[OF k ne b b b] performSearch_exhausted[OF k ne c c c]
          backoff_delay_def initial_world_def)
qed

lemma performSearch_first_usable:
  assumes key: "SERPER_API_KEY env = Some apiKey" "apiKey \<noteq> []"
    and f0: "attempt_kind (fetch_serper env (length (fetch_log w)) (strip_quotes query)) = None"
  shows "\<exists>rs. rs \<noteq> [] \<and> performSearch env query w =
           (Inr rs, w\<lparr>fetch_log := fetch_log w @ replicate 1 (strip_quotes query)\<rparr>)"
proof -
  have "performSearch env query w = search_loop env (strip_quotes query) 1 w"
    using key by (simp add: performSearch_def)
  moreover from search_loop_usable[OF f0, of 1] obtain rs where
    "rs \<noteq> []" "search_loop env (strip_quotes query) 1 w
        = (Inr rs, w\<lparr>fetch_log := fetch_log w @ [strip_quotes query]\<rparr>)"
    by auto
  ultimately show ?thesis by simp
qed

lemma performSearch_second_usable:
  assumes key: "SERPER_API_KEY env = Some apiKey" "apiKey \<noteq> []"
    and f0: "attempt_kind (fetch_serper env (length (fetch_log w)) (strip_quotes query)) = Some k0"
    and f1: "attempt_kind (fetch_serper env (length (fetch_log w) + 1) (strip_quotes query)) = None"
  shows "\<exists>rs. rs \<noteq> [] \<and> performSearch env query w =
           (Inr rs, w\<lparr>fetch_log := fetch_log w @ replicate 2 (strip_quotes query),
                       sleep_log := sleep_log w @ backoff_delay k0 1\<rparr>)"
proof -
  let ?q = "strip_quotes query"
  let ?w1 = "w\<lparr>fetch_log := fetch_log w @ [?q], sleep_log := sleep_log w @ backoff_delay k0 1\<rparr>"
  have "performSearch env query w = search_loop env ?q 1 w"
    using key by (simp add: performSearch_def)
  also have "\<dots> = search_loop env ?q 2 ?w1"
    by (rule search_loop_retry[OF f0]) simp_all
  finally have eq: "performSearch env query w = search_loop env ?q 2 ?w1" .
  have f1': "attempt_kind (fetch_serper env (length (fetch_log ?w1)) ?q) = None"
    using f1 by simp
  from search_loop_usable[OF f1', of 2] obtain rs where
    "rs \<noteq> []" "search_loop env ?q 2 ?w1 = (Inr rs, ?w1\<lparr>fetch_log := fetch_log ?w1 @ [?q]\<rparr>)"
    by auto
  with eq show ?thesis by (simp add: numeral_2_eq_2)
qed

lemma performSearch_third_usable:
  assumes key: "SERPER_API_KEY env = Some apiKey" "apiKey \<noteq> []"
    and f0: "attempt_kind (fetch_serper env (length (fetch_log w)) (strip_quotes query)) = Some k0"
    and f1: "attempt_kind (fetch_serper env (length (fetch_log w) + 1) (strip_quotes query)) = Some k1"
    and f2: "attempt_kind (fetch_serper env (length (fetch_log w) + 2) (strip_quotes query)) = None"
  shows "\<exists>rs. rs \<noteq> [] \<and> performSearch env query w =
           (Inr rs, w\<lparr>fetch_log := fetch_log w @ replicate 3 (strip_quotes query),
                       sleep_log := sleep_log w @ backoff_delay k0 1 @ backoff_delay k1 2\<rparr>)"
proof -
  let ?q = "strip_quotes query"
  let ?w1 = "w\<lparr>fetch_log := fetch_log w @ [?q], sleep_log := sleep_log w @ backoff_delay k0 1\<rparr>"
  let ?w2 = "?w1\<lparr>fetch_log := fetch_log ?w1 @ [?q], sleep_log := sleep_log ?w1 @ backoff_delay k1 2\<rparr>"
  have "performSearch env query w = search_loop env ?q 1 w"
    using key by (simp add: performSearch_def)
  also have "\<dots> = search_loop env ?q 2 ?w1"
    by (rule search_loop_retry[OF f0]) simp_all
  finally have eq1: "performSearch env query w = search_loop env ?q 2 ?w1" .
  have f1': "attempt_kind (fetch_serper env (length (fetch_log ?w1)) ?q) = Some k1"
    using f1 by simp
  have eq2: "search_loop env ?q 2 ?w1 = search_loop env ?q 3 ?w2"
    by (rule search_loop_retry[OF f1']) simp_all
  have f2': "attempt_kind (fetch_serper env (length (fetch_log ?w2)) ?q) = None"
    using f2 by simp
  from search_loop_usable[OF f2', of 3] obtain rs where
    "rs \<noteq> []" "search_loop env ?q 3 ?w2 = (Inr rs, ?w2\<lparr>fetch_log := fetch_log ?w2 @ [?q]\<rparr>)"
    by auto
  with eq1 eq2 show ?thesis by (simp add: numeral_3_eq_3)
qed

text \<open>
  C8, amended: with the API key set, \<open>performSearch\<close> makes at most 3 attempts, one
  more after each failed one; after a failed attempt that is not the third it waits the
  attempt index times 1000 ms when the response was not ok, the attempt index times
  1500 ms when the attempt threw (transport error, timeout), and does not wait when the
  result set was empty.
\<close>

theorem performSearch_retry_policy:
  assumes key: "SERPER_API_KEY env = Some apiKey" "apiKey \<noteq> []"
  shows "fetch_log (snd (performSearch env query w)) =
           fetch_log w @ replicate
             (case attempt_kind (fetch_serper env (length (fetch_log w)) (strip_quotes query)) of
                None \<Rightarrow> 1
              | Some k0 \<Rightarrow>
                  (case attempt_kind (fetch_serper env (length (fetch_log w) + 1) (strip_quotes query)) of
                     None \<Rightarrow> 2 | Some k1 \<Rightarrow> 3))
             (strip_quotes query)
         \<and> sleep_log (snd (performSearch env query w)) =
           sleep_log w @
             (case attempt_kind (fetch_serper env (length (fetch_log w)) (strip_quotes query)) of
                None \<Rightarrow> []
              | Some k0 \<Rightarrow> backoff_delay k0 1 @
                  (case attempt_kind (fetch_serper env (length (fetch_log w) + 1) (strip_quotes query)) of
                     None \<Rightarrow> [] | Some k1 \<Rightarrow> backoff_delay k1 2))"
proof (cases "attempt_kind (fetch_serper env (length (fetch_log w)) (strip_quotes query))")
  case None
  from performSearch_first_usable[OF key None] show ?thesis using None by auto
next
  case k0: (Some k0)
  show ?thesis
  proof (cases "attempt_kind (fetch_serper env (length (fetch_log w) + 1) (strip_quotes query))")
    case None
    from performSearch_second_usable[OF key k0 None] show ?thesis using k0 None by auto
  next
    case k1: (Some k1)
    show ?thesis
    proof (cases "attempt_kind (fetch_serper env (length (fetch_log w) + 2) (strip_quotes query))")
      case None
      from performSearch_third_usable[OF key k0 k1 None] show ?thesis using k0 k1 by auto
    next
      case (Some k2)
      from performSearch_exhausted[OF key k0 k1 Some] show ?thesis using k0 k1 by auto
    qed
  qed
qed

theorem performSearch_retry_policy_witness:
  "SERPER_API_KEY (example_env chat_ok fetch_bad_status) = Some ''serper-test''
   \<and> ''serper-test'' \<noteq> []
   \<and> fetch_log (snd (performSearch (example_env chat_ok fetch_bad_status) ''q'' initial_world))
       = [''q'', ''q'', ''q'']
   \<and> sleep_log (snd (performSearch (example_env chat_ok fetch_bad_status) ''q'' initial_world))
       = [1000, 2000]"
proof -
  have k: "SERPER_API_KEY (example_env chat_ok fetch_bad_status) = Some ''serper-test''"
    by (simp add: example_env_def)
  have ne: "''serper-test'' \<noteq> []" by simp
  have a: "attempt_kind (fetch_serper (example_env chat_ok fetch_bad_status) n q) = Some NonOk" for n q
    by (simp add: example_env_def fetch_bad_status_def attempt_kind_def)
  show ?thesis
    using performSearch_retry_policy[OF k ne, of "''q''" initial_world] k
    by (simp add: a backoff_delay_def initial_world_def strip_quotes_q numeral_3_eq_3)
qed

lemma str_includes_prefix: "str_includes (s @ b) s"
proof (cases "s @ b")
  case Nil
  then show ?thesis by simp
next
  case (Cons c cs)
  have "prefix s (s @ b)" by simp
  with Cons show ?thesis by simp
qed

lemma str_includes_append_left: "str_includes t s \<Longrightarrow> str_includes (a @ t) s"
  by (induction a) auto

lemma str_includes_middle: "str_includes (a @ s @ b) s"
  by (simp add: str_includes_append_left str_includes_prefix)

lemma mock_links:
  "map link (generateMockResults q) =
     [''https://example.com/resource1'', ''https://en.wikipedia.org/wiki/example'',
      ''https://example.org/research'', ''https://example.net/guide'',
      ''https://example.com/expert-analysis'']"
  by (simp add: generateMockResults_def)

lemma is_mock_link_mock: "list_all is_mock_link (map link (generateMockResults q))"
  unfolding mock_links by (simp add: is_mock_link_def)

lemma hasMockResults_mock: "hasMockResults (generateMockResults q)"
  using is_mock_link_mock[of q] by (simp add: hasMockResults_def list_all_iff)

lemma str_includes_suffix: "str_includes (a @ s) s"
  using str_includes_middle[of a s "[]"] by simp

lemma mock_titles_include: "list_all (\<lambda>r. str_includes (title r) q) (generateMockResults q)"
  by (simp only: generateMockResults_def list.pred_inject SearchResult.select_convs
        str_includes_middle str_includes_prefix str_includes_suffix simp_thms)

text \<open>
  C9 as stated fails for a query wrapped in quotes: the titles are built from the query
  with the wrapping quotes removed, so they do not contain the original text.
\<close>

theorem fallback_title_counterexample:
  "attempt_kind (fetch_serper (example_env chat_ok fetch_unreachable) 0 ''a'') = Some Raised
   \<and> attempt_kind (fetch_serper (example_env chat_ok fetch_unreachable) 1 ''a'') = Some Raised
   \<and> attempt_kind (fetch_serper (example_env chat_ok fetch_unreachable) 2 ''a'') = Some Raised
   \<and> fst (performSearch (example_env chat_ok fetch_unreachable) [CHR 0x22, CHR ''a'', CHR 0x22]
              initial_world) = Inr (generateMockResults ''a'')
   \<and> title (hd (generateMockResults ''a'')) = ''Information about a - Resource 1''
   \<and> \<not> str_includes (title (hd (generateMockResults ''a''))) [CHR 0x22, CHR ''a'', CHR 0x22]"
proof -
  have b: "attempt_kind (fetch_serper (example_env chat_ok fetch_unreachable) n q) = Some Raised" for n q
    by (simp add: example_env_def fetch_unreachable_def attempt_kind_def)
  have k: "SERPER_API_KEY (example_env chat_ok fetch_unreachable) = Some ''serper-test''"
    by (simp add: example_env_def)
  have ne: "''serper-test'' \<noteq> []" by simp
  have sq: "strip_quotes [CHR 0x22, CHR ''a'', CHR 0x22] = ''a''"
    by (simp add: strip_quotes_def is_quote_def is_line_terminator_def)
  have "fst (performSearch (example_env chat_ok fetch_unreachable) [CHR 0x22, CHR ''a'', CHR 0x22]
              initial_world) = Inr (generateMockResults ''a'')"
    using performSearch_exhausted[OF k ne b b b, of "[CHR 0x22, CHR ''a'', CHR 0x22]" initial_world]
    by (simp add: sq)
  moreover have "title (hd (generateMockResults ''a'')) = ''Information about a - Resource 1''"
    by (simp add: generateMockResults_def)
  moreover have "\<not> str_includes ''Information about a - Resource 1'' [CHR 0x22, CHR ''a'', CHR 0x22]"
    by simp
  ultimately show ?thesis using b by simp
qed

text \<open>
  C9, amended: with the API key set, if all 3 attempts fail, \<open>performSearch\<close> returns
  exactly 5 entries whose links are pairwise distinct and all pass the placeholder test
  of the loop, and every title contains the query with its wrapping quotes removed
  (the original query when it is not wrapped in quotes).
\<close>

theorem performSearch_fallback:
  assumes key: "SERPER_API_KEY env = Some apiKey" "apiKey \<noteq> []"
    and f0: "attempt_kind (fetch_serper env (length (fetch_log w)) (strip_quotes query)) \<noteq> None"
    and f1: "attempt_kind (fetch_serper env (length (fetch_log w) + 1) (strip_quotes query)) \<noteq> None"
    and f2: "attempt_kind (fetch_serper env (length (fetch_log w) + 2) (strip_quotes query)) \<noteq> None"
  shows "\<exists>rs. fst (performSearch env query w) = Inr rs
           \<and> length rs = 5
           \<and> distinct (map link rs)
           \<and> list_all (\<lambda>r. is_mock_link (link r)) rs
           \<and> list_all (\<lambda>r. str_includes (title r) (strip_quotes query)) rs"
proof -
  from f0 f1 f2 obtain k0 k1 k2 where
    "attempt_kind (fetch_serper env (length (fetch_log w)) (strip_quotes query)) = Some k0"
    "attempt_kind (fetch_serper env (length (fetch_log w) + 1) (strip_quotes query)) = Some k1"
    "attempt_kind (fetch_serper env (length (fetch_log w) + 2) (strip_quotes query)) = Some k2"
    by auto
  from performSearch_exhausted[OF key this]
  have "fst (performSearch env query w) = Inr (generateMockResults (strip_quotes query))"
    by simp
  moreover have "length (generateMockResults (strip_quotes query)) = 5"
    by (simp add: generateMockResults_def)
  moreover have "distinct (map link (generateMockResults (strip_quotes query)))"
    unfolding mock_links by simp
  moreover have "list_all (\<lambda>r. is_mock_link (link r)) (generateMockResults (strip_quotes query))"
    using hasMockResults_mock by (simp add: hasMockResults_def)
  ultimately show ?thesis using mock_titles_include by blast
qed

theorem performSearch_fallback_witness:
  "SERPER_API_KEY (example_env chat_ok fetch_no_results) = Some ''serper-test''
   \<and> ''serper-test'' \<noteq> []
   \<and> attempt_kind (fetch_serper (example_env chat_ok fetch_no_results)
         (length (fetch_log initial_world)) (strip_quotes ''q'')) \<noteq> None
   \<and> attempt_kind (fetch_serper (example_env chat_ok fetch_no_results)
         (length (fetch_log initial_world) + 1) (strip_quotes ''q'')) \<noteq> None
   \<and> attempt_kind (fetch_serper (example_env chat_ok fetch_no_results)
         (length (fetch_log initial_world) + 2) (strip_quotes ''q'')) \<noteq> None
   \<and> (\<exists>rs. fst (performSearch (example_env chat_ok fetch_no_results) ''q'' initial_world) = Inr rs
           \<and> length rs = 5
           \<and> distinct (map link rs)
           \<and> list_all (\<lambda>r. is_mock_link (link r)) rs
           \<and> list_all (\<lambda>r. str_includes (title r) (strip_quotes ''q'')) rs)"
proof -
  have k: "SERPER_API_KEY (example_env chat_ok fetch_no_results) = Some ''serper-test''"
    by (simp add: example_env_def)
  have ne: "''serper-test'' \<noteq> []" by simp
  have c: "attempt_kind (fetch_serper (example_env chat_ok fetch_no_results) n q) \<noteq> None" for n q
    by (simp add: example_env_def fetch_no_results_def attempt_kind_def)
  from performSearch_fallback[OF k ne c c c, of "''q''" initial_world] k ne c
  show ?thesis by blast
qed

lemma search_loop_logs:
  "llm_log (snd (search_loop env q a w)) = llm_log w
   \<and> length (fetch_log (snd (search_loop env q a w))) \<le> length (fetch_log w) + (4 - a)"
proof (induction env q a w rule: search_loop.induct)
  case (1 env q a w)
  show ?case
  proof (cases "a \<le> 3")
    case False
    then show ?thesis by (simp add: search_loop.simps)
  next
    case True
    obtain r w1 where r: "search_attempt env q a w = (r, w1)" by (cases "search_attempt env q a w")
    have l1: "llm_log w1 = llm_log w" using search_attempt_llm_log[of env q a w] r by simp
    have f1: "fetch_log w1 = fetch_log w @ [q]" using search_attempt_fetch_log[of env q a w] r by simp
    show ?thesis
    proof (cases r)
      case (AttemptReturn rs)
      with True r l1 f1 show ?thesis by (simp add: search_loop.simps[of env q a w])
    next
      case AttemptContinue
      from True r "1.IH" l1 f1 AttemptContinue
      have "llm_log (snd (search_loop env q (a + 1) w1)) = llm_log w"
        and "length (fetch_log (snd (search_loop env q (a + 1) w1))) \<le> length (fetch_log w) + 1 + (4 - (a + 1))"
        by simp_all
      moreover have "search_loop env q a w = search_loop env q (a + 1) w1"
        using True r AttemptContinue by (simp add: search_loop.simps[of env q a w])
      ultimately show ?thesis using True by simp
    qed
  qed
qed

lemma performSearch_effect:
  assumes "performSearch env query w = (r, w')"
  shows "\<exists>rs. r = Inr rs" and "llm_log w' = llm_log w"
    and "length (fetch_log w') \<le> length (fetch_log w) + 3"
proof -
  from performSearch_Inr[of env query w] assms show "\<exists>rs. r = Inr rs" by simp
  from assms search_loop_logs[of env "strip_quotes query" 1 w]
  show "llm_log w' = llm_log w" and "length (fetch_log w') \<le> length (fetch_log w) + 3"
    by (auto simp: performSearch_def split: option.splits if_splits)
qed

section \<open>The reasoning engine\<close>

subsection \<open>One model request\<close>

lemma generatePlanningStep_eq:
  "generatePlanningStep env q rs ctx w =
     (map_sum id (planning_step q) (next_reply env w planning_system (planningPrompt q rs ctx)),
      log_request planning_system (planningPrompt q rs ctx) w)"
  by (simp add: generatePlanningStep_def create_completion_def next_reply_def split: sum.splits)

lemma generateRefinedQuery_eq:
  "generateRefinedQuery env q ts w =
     (map_sum id (refined_query q) (next_reply env w refinement_system (refinementPrompt q ts)),
      log_request refinement_system (refinementPrompt q ts) w)"
  by (simp add: generateRefinedQuery_def create_completion_def next_reply_def split: sum.splits)

lemma analyzeSearchResults_eq:
  "analyzeSearchResults env rq rs ts w =
     (map_sum id (analysis_step rq rs) (next_reply env w analysis_system (analysisPrompt rq rs)),
      log_request analysis_system (analysisPrompt rq rs) w)"
  by (simp add: analyzeSearchResults_def create_completion_def next_reply_def split: sum.splits)

subsection \<open>One round, with its try and catch resolved\<close>

lemma set_observation_last [simp]:
  "set_observation (length ts) obs (ts @ [s]) = ts @ [s\<lparr>observation := obs\<rparr>]"
  by (simp add: set_observation_def)

lemma append_observation_last [simp]:
  "append_observation (length ts) extra (ts @ [s]) = ts @ [s\<lparr>observation := observation s @ extra\<rparr>]"
  by (simp add: append_observation_def)

lemma analyze_and_check_eq:
  "analyze_and_check env rq rs cf ts w =
     (case next_reply env w analysis_system (analysisPrompt rq rs) of
        Inl e \<Rightarrow> (Inl e, cf, ts, log_request analysis_system (analysisPrompt rq rs) w)
      | Inr c \<Rightarrow>
          (Inr (break_if (has_sufficiency_marker (analysis_step rq rs c))), cf,
           ts @ [analysis_step rq rs c], log_request analysis_system (analysisPrompt rq rs) w))"
  by (simp add: analyze_and_check_def analyzeSearchResults_eq break_if_def Let_def split: sum.splits)

lemma research_iteration_refine_throws:
  assumes "next_reply env w refinement_system (refinementPrompt q ts) = Inl e"
  shows "research_iteration env q cf ts w =
           (Inl e, cf, ts, log_request refinement_system (refinementPrompt q ts) w)"
  using assms by (simp add: research_iteration_def generateRefinedQuery_eq)

lemma research_iteration_searched:
  assumes refine: "next_reply env w refinement_system (refinementPrompt q ts) = Inr c"
    and search: "performSearch env (refined_query q c)
                   (log_request refinement_system (refinementPrompt q ts) w) = (Inr rs, w2)"
  shows "research_iteration env q cf ts w =
     (let rq = refined_query q c;
          s = new_search_step rq;
          w3 = log_request analysis_system (analysisPrompt rq rs) w2
      in if hasMockResults rs then
           if cf + 1 \<ge> 2 then
             (Inr IterBreak, cf + 1,
              ts @ [s\<lparr>observation := placeholder_observation @ failure_note\<rparr>], w2)
           else
             (case next_reply env w2 analysis_system (analysisPrompt rq rs) of
                Inl e \<Rightarrow>
                  (Inr IterBreak, cf + 2,
                   ts @ [s\<lparr>observation := error_observation @ failure_note\<rparr>], w3)
              | Inr c1 \<Rightarrow>
                  (Inr (break_if (has_sufficiency_marker (analysis_step rq rs c1))), cf + 1,
                   ts @ [s\<lparr>observation := placeholder_observation\<rparr>, analysis_step rq rs c1], w3))
         else
           (case next_reply env w2 analysis_system (analysisPrompt rq rs) of
              Inl e \<Rightarrow> (Inr IterNext, 1, ts @ [s\<lparr>observation := error_observation\<rparr>], w3)
            | Inr c1 \<Rightarrow>
                (Inr (break_if (has_sufficiency_marker (analysis_step rq rs c1))), 0,
                 ts @ [s\<lparr>observation := found_observation rs\<rparr>, analysis_step rq rs c1], w3)))"
  using refine search
  by (auto simp: research_iteration_def generateRefinedQuery_eq iteration_try_def
        analyze_and_check_eq Let_def placeholder_observation_def error_observation_def
        found_observation_def
      split: sum.splits)

subsection \<open>What a round leaves behind\<close>

lemma or_default_nonempty: "d \<noteq> [] \<Longrightarrow> or_default c d \<noteq> []"
  by (simp add: or_default_def split: option.splits)

lemma is_search_new [simp]: "is_search ((new_search_step rq)\<lparr>observation := obs\<rparr>)"
  by (simp add: is_search_def new_search_step_def)

lemma analysis_step_is_analysis [simp]: "is_analysis (analysis_step rq rs c)"
  by (simp add: is_analysis_def analysis_step_def Let_def or_default_nonempty)

lemma planning_step_is_planning [simp]: "is_planning q (planning_step q c)"
  by (simp add: is_planning_def planning_step_def Let_def or_default_nonempty)

lemma system_messages_distinct:
  "planning_system \<noteq> refinement_system" "planning_system \<noteq> analysis_system"
  "final_system \<noteq> refinement_system" "final_system \<noteq> analysis_system"
  "refinement_system \<noteq> analysis_system" "planning_system \<noteq> final_system"
  "refinement_system \<noteq> planning_system" "analysis_system \<noteq> planning_system"
  "refinement_system \<noteq> final_system" "analysis_system \<noteq> final_system"
  "analysis_system \<noteq> refinement_system" "final_system \<noteq> planning_system"
  by (simp_all add: planning_system_def refinement_system_def analysis_system_def final_system_def)

lemma failed_requests_append:
  "failed_requests env n (a @ b) = failed_requests env n a @ failed_requests env (n + length a) b"
  by (induction a arbitrary: n) auto

lemma failures_outside_analysis_append:
  "failures_outside_analysis env n (a @ b) =
     failures_outside_analysis env n a @ failures_outside_analysis env (n + length a) b"
  by (simp add: failures_outside_analysis_def failed_requests_append)

lemma failures_outside_analysis_single:
  "failures_outside_analysis env (length (llm_log w)) [(sys, p)] =
     (if sys = analysis_system then [] else abort_errors (next_reply env w sys p))"
  by (simp add: failures_outside_analysis_def next_reply_def abort_errors_def split: sum.splits)

lemma failures_outside_analysis_pair:
  "failures_outside_analysis env (length (llm_log w)) [(refinement_system, p), (analysis_system, p')] =
     abort_errors (next_reply env w refinement_system p)"
  by (simp add: failures_outside_analysis_def next_reply_def abort_errors_def
        system_messages_distinct split: sum.splits)

lemma count_requests_append:
  "count_requests sys (a @ b) = count_requests sys a + count_requests sys b"
  by (simp add: count_requests_def)

lemma count_requests_single:
  "count_requests sys [(sys', p)] = (if sys' = sys then 1 else 0)"
  by (simp add: count_requests_def)

lemma research_iteration_summary:
  assumes "research_iteration env q cf ts w = (r, cf', ts', w')"
  obtains requests rounds where
    "llm_log w' = llm_log w @ requests"
    "failures_outside_analysis env (length (llm_log w)) requests = abort_errors r"
    "count_requests refinement_system requests = 1"
    "count_requests analysis_system requests \<le> 1"
    "count_requests planning_system requests = 0"
    "count_requests final_system requests = 0"
    "length (fetch_log w') \<le> length (fetch_log w) + 3"
    "ts' = ts @ concat rounds" "length rounds \<le> 1" "list_all round_shape rounds"
    "isl r \<longrightarrow> rounds = []"
proof (cases "next_reply env w refinement_system (refinementPrompt q ts)")
  case (Inl e)
  from research_iteration_refine_throws[OF Inl, of cf] assms
  have r: "r = Inl e" "ts' = ts" "w' = log_request refinement_system (refinementPrompt q ts) w"
    by simp_all
  show ?thesis
  proof (rule that[of "[(refinement_system, refinementPrompt q ts)]" "[]"])
    show "failures_outside_analysis env (length (llm_log w))
            [(refinement_system, refinementPrompt q ts)] = abort_errors r"
      using r Inl by (simp add: failures_outside_analysis_single system_messages_distinct abort_errors_def)
  qed (use r in \<open>simp_all add: log_request_def count_requests_single system_messages_distinct\<close>)
next
  case (Inr c)
  let ?w1 = "log_request refinement_system (refinementPrompt q ts) w"
  let ?rq = "refined_query q c"
  obtain sr w2 where ps: "performSearch env ?rq ?w1 = (sr, w2)"
    by (cases "performSearch env ?rq ?w1")
  from performSearch_effect[OF ps] obtain rs where
    sr: "sr = Inr rs" and l2: "llm_log w2 = llm_log ?w1"
    and f2: "length (fetch_log w2) \<le> length (fetch_log ?w1) + 3"
    by blast
  let ?p = "analysisPrompt ?rq rs"
  let ?s = "new_search_step ?rq"
  note eq = research_iteration_searched[OF Inr ps[unfolded sr], of cf]
  have fw: "fetch_log ?w1 = fetch_log w" by (simp add: log_request_def)
  have len2: "length (llm_log w2) = Suc (length (llm_log w))"
    using l2 by (simp add: log_request_def)
  consider (no_analysis) "hasMockResults rs" "cf + 1 \<ge> 2"
    | (analysis) "\<not> (hasMockResults rs \<and> cf + 1 \<ge> 2)"
    by blast
  then show ?thesis
  proof cases
    case no_analysis
    with eq assms have r: "r = Inr IterBreak" "w' = w2"
      "ts' = ts @ [?s\<lparr>observation := placeholder_observation @ failure_note\<rparr>]"
      by (simp_all add: Let_def)
    show ?thesis
    proof (rule that[of "[(refinement_system, refinementPrompt q ts)]"
                        "[[?s\<lparr>observation := placeholder_observation @ failure_note\<rparr>]]"])
      show "failures_outside_analysis env (length (llm_log w))
              [(refinement_system, refinementPrompt q ts)] = abort_errors r"
        using r Inr by (simp add: failures_outside_analysis_single system_messages_distinct abort_errors_def)
    qed (use r l2 f2 fw in \<open>simp_all add: log_request_def count_requests_single system_messages_distinct\<close>)
  next
    case analysis
    show ?thesis
    proof (cases "next_reply env w2 analysis_system ?p")
      case a: (Inl e)
      from analysis a eq assms obtain obs where r: "\<exists>x. r = Inr x"
        "w' = log_request analysis_system ?p w2"
        "ts' = ts @ [?s\<lparr>observation := obs\<rparr>]"
        by (auto simp: Let_def split: if_splits)
      show ?thesis
      proof (rule that[of "[(refinement_system, refinementPrompt q ts), (analysis_system, ?p)]"
                          "[[?s\<lparr>observation := obs\<rparr>]]"])
        show "failures_outside_analysis env (length (llm_log w))
                [(refinement_system, refinementPrompt q ts), (analysis_system, ?p)] = abort_errors r"
          using r Inr by (auto simp: failures_outside_analysis_pair abort_errors_def)
      qed (use r l2 f2 fw in \<open>auto simp: log_request_def count_requests_def system_messages_distinct\<close>)
    next
      case a: (Inr c1)
      from analysis a eq assms obtain obs where r: "\<exists>x. r = Inr x"
        "w' = log_request analysis_system ?p w2"
        "ts' = ts @ [?s\<lparr>observation := obs\<rparr>, analysis_step ?rq rs c1]"
        by (auto simp: Let_def split: if_splits)
      show ?thesis
      proof (rule that[of "[(refinement_system, refinementPrompt q ts), (analysis_system, ?p)]"
                          "[[?s\<lparr>observation := obs\<rparr>, analysis_step ?rq rs c1]]"])
        show "failures_outside_analysis env (length (llm_log w))
                [(refinement_system, refinementPrompt q ts), (analysis_system, ?p)] = abort_errors r"
          using r Inr by (auto simp: failures_outside_analysis_pair abort_errors_def)
      qed (use r l2 f2 fw in \<open>auto simp: log_request_def count_requests_def system_messages_distinct\<close>)
    qed
  qed
qed

subsection \<open>What the loop leaves behind\<close>

lemma research_loop_summary:
  assumes "research_loop env q m i cf ts w = (r, ts', w')"
  shows "\<exists>requests rounds.
           llm_log w' = llm_log w @ requests
           \<and> failures_outside_analysis env (length (llm_log w)) requests = abort_errors r
           \<and> count_requests refinement_system requests \<le> m - i
           \<and> count_requests analysis_system requests \<le> m - i
           \<and> count_requests planning_system requests = 0
           \<and> count_requests final_system requests = 0
           \<and> length (fetch_log w') \<le> length (fetch_log w) + 3 * (m - i)
           \<and> ts' = ts @ concat rounds \<and> length rounds \<le> m - i \<and> list_all round_shape rounds"
  using assms
proof (induction env q m i cf ts w arbitrary: r ts' w' rule: research_loop.induct)
  case (1 env q m i cf ts w)
  show ?case
  proof (cases "i < m")
    case False
    with "1.prems" have "r = Inr ()" "ts' = ts" "w' = w"
      by (simp_all add: research_loop.simps[of env q m i cf ts w])
    then show ?thesis
      by (intro exI[of _ "[]"]) (simp add: failures_outside_analysis_def abort_errors_def count_requests_def)
  next
    case True
    obtain r1 cf1 ts1 w1 where it: "research_iteration env q cf ts w = (r1, cf1, ts1, w1)"
      by (cases "research_iteration env q cf ts w") auto
    from research_iteration_summary[OF it] obtain req1 rnd1 where s1:
      "llm_log w1 = llm_log w @ req1"
      "failures_outside_analysis env (length (llm_log w)) req1 = abort_errors r1"
      "count_requests refinement_system req1 = 1"
      "count_requests analysis_system req1 \<le> 1"
      "count_requests planning_system req1 = 0"
      "count_requests final_system req1 = 0"
      "length (fetch_log w1) \<le> length (fetch_log w) + 3"
      "ts1 = ts @ concat rnd1" "length rnd1 \<le> 1" "list_all round_shape rnd1"
      by metis
    have budget: "1 \<le> m - i" "3 \<le> 3 * (m - i)" using True by simp_all
    have stop: ?thesis if "abort_errors r = abort_errors r1" "ts' = ts1" "w' = w1"
      apply (rule exI[of _ req1], rule exI[of _ rnd1])
      using that s1 budget by simp
    show ?thesis
    proof (cases r1)
      case (Inl e)
      with True it "1.prems" have "r = Inl e" "ts' = ts1" "w' = w1"
        by (simp_all add: research_loop.simps[of env q m i cf ts w])
      with Inl show ?thesis
        by (intro stop) (simp_all add: abort_errors_def)
    next
      case (Inr x)
      show ?thesis
      proof (cases x)
        case IterBreak
        with Inr True it "1.prems" have "r = Inr ()" "ts' = ts1" "w' = w1"
          by (simp_all add: research_loop.simps[of env q m i cf ts w])
        with Inr show ?thesis
          by (intro stop) (simp_all add: abort_errors_def)
      next
        case IterNext
        with Inr True it "1.prems"
        have next_loop: "research_loop env q m (i + 1) cf1 ts1 w1 = (r, ts', w')"
          by (simp add: research_loop.simps[of env q m i cf ts w])
        from "1.IH"[OF True it[symmetric] Inr IterNext refl refl next_loop]
        obtain req2 rnd2 where s2:
          "llm_log w' = llm_log w1 @ req2"
          "failures_outside_analysis env (length (llm_log w1)) req2 = abort_errors r"
          "count_requests refinement_system req2 \<le> m - (i + 1)"
          "count_requests analysis_system req2 \<le> m - (i + 1)"
          "count_requests planning_system req2 = 0"
          "count_requests final_system req2 = 0"
          "length (fetch_log w') \<le> length (fetch_log w1) + 3 * (m - (i + 1))"
          "ts' = ts1 @ concat rnd2" "length rnd2 \<le> m - (i + 1)" "list_all round_shape rnd2"
          by blast
        have f: "failures_outside_analysis env (length (llm_log w)) (req1 @ req2) = abort_errors r"
          using s1(1,2) s2(2) Inr
          by (simp add: failures_outside_analysis_append abort_errors_def)
        have fl: "length (fetch_log w') \<le> length (fetch_log w) + 3 * (m - i)"
          using s1(7) s2(7) True by simp
        have c1: "count_requests refinement_system (req1 @ req2) \<le> m - i"
          using s1(3) s2(3) True unfolding count_requests_append by arith
        have c2: "count_requests analysis_system (req1 @ req2) \<le> m - i"
          using s1(4) s2(4) True unfolding count_requests_append by arith
        have c3: "length (rnd1 @ rnd2) \<le> m - i"
          using s1(9) s2(9) True by simp
        have c4: "count_requests planning_system (req1 @ req2) = 0"
          "count_requests final_system (req1 @ req2) = 0"
          using s1(5,6) s2(5,6) by (simp_all add: count_requests_append)
        show ?thesis
          apply (intro exI[of _ "req1 @ req2"] exI[of _ "rnd1 @ rnd2"])
          using s1(1,8,10) s2(1,8,10) f fl c1 c2 c3 c4 by simp
      qed
    qed
  qed
qed

subsection \<open>What a whole run leaves behind\<close>

lemma essentialSteps_Cons:
  "essentialSteps (p # rest) = Inr (p # slice_last 2 (filter is_analysis_step (p # rest)))"
  by (simp add: essentialSteps_def)

lemma generateFinalOutput_eq:
  "generateFinalOutput env q (p # rest) ctx w =
     (map_sum id (\<lambda>c. or_default c ''Unable to generate a response based on the research.'')
        (next_reply env w final_system
           (finalPrompt q (p # slice_last 2 (filter is_analysis_step (p # rest))) ctx)),
      log_request final_system
        (finalPrompt q (p # slice_last 2 (filter is_analysis_step (p # rest))) ctx) w)"
  by (simp add: generateFinalOutput_def essentialSteps_Cons create_completion_def next_reply_def
        split: sum.splits)

lemma generateResearchResponse_no_key:
  assumes "initOpenAI env = Inl e"
  shows "generateResearchResponse env q init ctx w = (Inl e, w)"
  using assms by (simp add: generateResearchResponse_def)

lemma failures_outside_analysis_Nil [simp]: "failures_outside_analysis env n [] = []"
  by (simp add: failures_outside_analysis_def)

lemma count_requests_Nil [simp]: "count_requests sys [] = 0"
  by (simp add: count_requests_def)

lemma abort_errors_simps [simp]: "abort_errors (Inl e) = [e]" "abort_errors (Inr v) = []"
  by (simp_all add: abort_errors_def)

lemma generateResearchResponse_summary:
  assumes key: "initOpenAI env = Inr u"
    and run: "generateResearchResponse env q init ctx w = (r, w')"
  shows "\<exists>requests.
           llm_log w' = llm_log w @ requests
           \<and> failures_outside_analysis env (length (llm_log w)) requests = abort_errors r
           \<and> count_requests refinement_system requests \<le> 2
           \<and> count_requests analysis_system requests \<le> 2
           \<and> length (fetch_log w') \<le> length (fetch_log w) + 6
           \<and> (\<forall>resp. r = Inr resp \<longrightarrow>
                 (\<exists>c rounds. traceSteps resp = planning_step q c # concat rounds
                    \<and> length rounds \<le> 2 \<and> list_all round_shape rounds)
                 \<and> finalOutput resp \<noteq> [])"
proof (cases "next_reply env w planning_system (planningPrompt q init ctx)")
  case (Inl e)
  with key run have "r = Inl e" "w' = log_request planning_system (planningPrompt q init ctx) w"
    by (simp_all add: generateResearchResponse_def generatePlanningStep_eq)
  then show ?thesis
    apply (intro exI[of _ "[(planning_system, planningPrompt q init ctx)]"])
    using Inl
    by (simp add: log_request_def failures_outside_analysis_single system_messages_distinct
          count_requests_single)
next
  case (Inr c)
  let ?pp = "planningPrompt q init ctx"
  let ?w1 = "log_request planning_system ?pp w"
  let ?plan = "planning_step q c"
  obtain rl ts2 w2 where loop: "research_loop env q 2 0 0 [?plan] ?w1 = (rl, ts2, w2)"
    by (cases "research_loop env q 2 0 0 [?plan] ?w1") auto
  from research_loop_summary[OF loop] obtain req rounds where s:
    "llm_log w2 = llm_log ?w1 @ req"
    "failures_outside_analysis env (length (llm_log ?w1)) req = abort_errors rl"
    "count_requests refinement_system req \<le> 2"
    "count_requests analysis_system req \<le> 2"
    "length (fetch_log w2) \<le> length (fetch_log ?w1) + 3 * 2"
    "ts2 = [?plan] @ concat rounds" "length rounds \<le> 2" "list_all round_shape rounds"
    by auto
  have l1: "llm_log ?w1 = llm_log w @ [(planning_system, ?pp)]" "fetch_log ?w1 = fetch_log w"
    by (simp_all add: log_request_def)
  have f1: "failures_outside_analysis env (length (llm_log w)) [(planning_system, ?pp)] = []"
    using Inr by (simp add: failures_outside_analysis_single system_messages_distinct)
  have f2: "failures_outside_analysis env (length (llm_log w)) ((planning_system, ?pp) # req)
              = abort_errors rl"
    using failures_outside_analysis_append[of env "length (llm_log w)" "[(planning_system, ?pp)]" req]
      f1 s(2) l1 by simp
  have run': "generateResearchResponse env q init ctx w =
        (case rl of
           Inl e \<Rightarrow> (Inl e, w2)
         | Inr u \<Rightarrow>
             (case generateFinalOutput env q ts2 ctx w2 of
                (Inl e, w3) \<Rightarrow> (Inl e, w3)
              | (Inr output, w3) \<Rightarrow> (Inr \<lparr>traceSteps = ts2, finalOutput = output\<rparr>, w3)))"
    using key Inr loop
    by (simp add: generateResearchResponse_def generatePlanningStep_eq performIterativeResearch_def
          split: sum.splits)
  show ?thesis
  proof (cases rl)
    case rl: (Inl e)
    with run run' have "r = Inl e" "w' = w2" by simp_all
    then show ?thesis
      apply (intro exI[of _ "(planning_system, ?pp) # req"])
      using s l1 f2 rl by (simp add: count_requests_def system_messages_distinct)
  next
    case rl: (Inr u')
    let ?fp = "finalPrompt q (?plan # slice_last 2 (filter is_analysis_step ts2)) ctx"
    let ?w3 = "log_request final_system ?fp w2"
    have ts2: "ts2 = ?plan # concat rounds" using s(6) by simp
    have fin: "generateFinalOutput env q ts2 ctx w2 =
        (map_sum id (\<lambda>c. or_default c ''Unable to generate a response based on the research.'')
           (next_reply env w2 final_system ?fp), ?w3)"
      using generateFinalOutput_eq[of env q ?plan "concat rounds" ctx w2] ts2 by simp
    have len2: "length (llm_log w2) = length (llm_log w) + length ((planning_system, ?pp) # req)"
      using s(1) l1 by simp
    have f3: "failures_outside_analysis env (length (llm_log w))
                (((planning_system, ?pp) # req) @ [(final_system, ?fp)])
              = abort_errors (next_reply env w2 final_system ?fp)"
      using failures_outside_analysis_append[of env "length (llm_log w)"
          "(planning_system, ?pp) # req" "[(final_system, ?fp)]"]
        f2 rl failures_outside_analysis_single[of env w2 final_system ?fp] len2
      by (simp add: system_messages_distinct)
    have w3: "llm_log ?w3 = llm_log w @ ((planning_system, ?pp) # req) @ [(final_system, ?fp)]"
      "fetch_log ?w3 = fetch_log w2"
      using s(1) l1 by (simp_all add: log_request_def)
    have cnt: "count_requests refinement_system (((planning_system, ?pp) # req) @ [(final_system, ?fp)]) \<le> 2"
      "count_requests analysis_system (((planning_system, ?pp) # req) @ [(final_system, ?fp)]) \<le> 2"
      using s(3,4) by (simp_all add: count_requests_def system_messages_distinct)
    show ?thesis
    proof (cases "next_reply env w2 final_system ?fp")
      case (Inl e)
      with run run' rl fin have "r = Inl e" "w' = ?w3" by simp_all
      then show ?thesis
        apply (intro exI[of _ "((planning_system, ?pp) # req) @ [(final_system, ?fp)]"])
        using w3 f3 Inl cnt s(5) l1 by simp
    next
      case (Inr c3)
      with run run' rl fin have r: "w' = ?w3"
        "r = Inr \<lparr>traceSteps = ts2,
                   finalOutput = or_default c3 ''Unable to generate a response based on the research.''\<rparr>"
        by simp_all
      have "or_default c3 ''Unable to generate a response based on the research.'' \<noteq> []"
        by (rule or_default_nonempty) simp
      with r show ?thesis
        apply (intro exI[of _ "((planning_system, ?pp) # req) @ [(final_system, ?fp)]"])
        using w3 f3 Inr cnt s(5,7,8) l1 ts2 by auto
    qed
  qed
qed

subsection \<open>Unrolled forms, for running the engine on a given environment\<close>

lemma research_iteration_flat:
  "research_iteration env q cf ts w =
     (let w1 = log_request refinement_system (refinementPrompt q ts) w in
      case next_reply env w refinement_system (refinementPrompt q ts) of
        Inl e \<Rightarrow> (Inl e, cf, ts, w1)
      | Inr c \<Rightarrow>
         (let rq = refined_query q c;
              s = new_search_step rq;
              rs = projr (fst (performSearch env rq w1));
              w2 = snd (performSearch env rq w1);
              w3 = log_request analysis_system (analysisPrompt rq rs) w2
          in if hasMockResults rs then
               if cf + 1 \<ge> 2 then
                 (Inr IterBreak, cf + 1,
                  ts @ [s\<lparr>observation := placeholder_observation @ failure_note\<rparr>], w2)
               else
                 (case next_reply env w2 analysis_system (analysisPrompt rq rs) of
                    Inl e \<Rightarrow>
                      (Inr IterBreak, cf + 2,
                       ts @ [s\<lparr>observation := error_observation @ failure_note\<rparr>], w3)
                  | Inr c1 \<Rightarrow>
                      (Inr (break_if (has_sufficiency_marker (analysis_step rq rs c1))), cf + 1,
                       ts @ [s\<lparr>observation := placeholder_observation\<rparr>, analysis_step rq rs c1],
                       w3))
             else
               (case next_reply env w2 analysis_system (analysisPrompt rq rs) of
                  Inl e \<Rightarrow> (Inr IterNext, 1, ts @ [s\<lparr>observation := error_observation\<rparr>], w3)
                | Inr c1 \<Rightarrow>
                    (Inr (break_if (has_sufficiency_marker (analysis_step rq rs c1))), 0,
                     ts @ [s\<lparr>observation := found_observation rs\<rparr>, analysis_step rq rs c1],
                     w3))))"
proof (cases "next_reply env w refinement_system (refinementPrompt q ts)")
  case (Inl e)
  then show ?thesis by (simp add: research_iteration_refine_throws Let_def)
next
  case (Inr c)
  let ?w1 = "log_request refinement_system (refinementPrompt q ts) w"
  obtain sr w2 where ps: "performSearch env (refined_query q c) ?w1 = (sr, w2)"
    by (cases "performSearch env (refined_query q c) ?w1")
  from performSearch_effect(1)[OF ps] obtain rs where sr: "sr = Inr rs" by blast
  have ps': "performSearch env (refined_query q c) ?w1 = (Inr rs, w2)" using ps sr by simp
  show ?thesis
    unfolding research_iteration_searched[OF Inr ps', of cf]
    by (simp add: Inr ps' Let_def split: sum.splits)
qed

lemma research_loop_two_rounds:
  "research_loop env q 2 0 cf ts w =
     (case research_iteration env q cf ts w of
        (Inl e, cf1, ts1, w1) \<Rightarrow> (Inl e, ts1, w1)
      | (Inr IterBreak, cf1, ts1, w1) \<Rightarrow> (Inr (), ts1, w1)
      | (Inr IterNext, cf1, ts1, w1) \<Rightarrow>
          (case research_iteration env q cf1 ts1 w1 of
             (Inl e, cf2, ts2, w2) \<Rightarrow> (Inl e, ts2, w2)
           | (Inr x, cf2, ts2, w2) \<Rightarrow> (Inr (), ts2, w2)))"
proof -
  have two: "research_loop env q 2 (Suc (Suc 0)) cf' ts' w' = (Inr (), ts', w')" for cf' ts' w'
    by (subst research_loop.simps) simp
  have one: "research_loop env q 2 (Suc 0) cf' ts' w' =
     (case research_iteration env q cf' ts' w' of
        (Inl e, cf2, ts2, w2) \<Rightarrow> (Inl e, ts2, w2)
      | (Inr x, cf2, ts2, w2) \<Rightarrow> (Inr (), ts2, w2))" for cf' ts' w'
    by (subst research_loop.simps)
       (simp add: two split: prod.splits sum.splits iteration_result.splits)
  show ?thesis
    by (subst research_loop.simps)
       (simp add: one split: prod.splits sum.splits iteration_result.splits)
qed

lemma performSearch_unreachable:
  "performSearch (example_env chat fetch_unreachable) query w =
     (Inr (generateMockResults (strip_quotes query)),
      w\<lparr>fetch_log := fetch_log w @ replicate 3 (strip_quotes query),
        sleep_log := sleep_log w @ [1500, 3000]\<rparr>)"
proof -
  have b: "attempt_kind (fetch_serper (example_env chat fetch_unreachable) n q) = Some Raised" for n q
    by (simp add: example_env_def fetch_unreachable_def attempt_kind_def)
  have k: "SERPER_API_KEY (example_env chat fetch_unreachable) = Some ''serper-test''"
    by (simp add: example_env_def)
  have ne: "''serper-test'' \<noteq> []" by simp
  show ?thesis
    by (simp add: performSearch_exhausted[OF k ne b b b] backoff_delay_def)
qed

lemma performSearch_real:
  "performSearch (example_env chat fetch_real) query w =
     (Inr [real_result], w\<lparr>fetch_log := fetch_log w @ [strip_quotes query]\<rparr>)"
proof -
  have "attempt_kind (fetch_serper (example_env chat fetch_real) n q) = None" for n q
    by (simp add: example_env_def fetch_real_def attempt_kind_def real_result_def)
  have "search_loop (example_env chat fetch_real) q 1 w =
          (Inr [real_result], w\<lparr>fetch_log := fetch_log w @ [q]\<rparr>)" for q
    by (subst search_loop.simps)
       (simp add: search_attempt_def search_attempt_try_def example_env_def fetch_real_def
          Let_def real_result_def)
  then show ?thesis by (simp add: performSearch_def example_env_def)
qed

lemma real_result_not_mock: "\<not> hasMockResults [real_result]"
  by (simp add: hasMockResults_def real_result_def is_mock_link_def)

lemma refined_query_ok: "refined_query q (Some ''ok'') = ''ok''"
  by (simp add: refined_query_def or_default_def trim_def is_space_def strip_quotes_def is_quote_def)

lemma strip_quotes_ok: "strip_quotes ''ok'' = ''ok''"
  by (simp add: strip_quotes_def is_quote_def)

lemma no_marker_ok: "\<not> has_sufficiency_marker (analysis_step rq rs (Some ''ok''))"
  by (simp add: has_sufficiency_marker_def analysis_step_def Let_def or_default_def)

lemma example_env_sel [simp]:
  "OPENAI_API_KEY (example_env chat fetch) = Some ''sk-test''"
  "SERPER_API_KEY (example_env chat fetch) = Some ''serper-test''"
  "chat_completions_create (example_env chat fetch) = chat"
  "fetch_serper (example_env chat fetch) = fetch"
  by (simp_all add: example_env_def)

lemma run_unreachable_ok:
  "fst (generateResearchResponse (example_env chat_ok fetch_unreachable) q init ctx w) =
     Inr \<lparr>traceSteps =
            [planning_step q (Some ''ok''),
             (new_search_step ''ok'')\<lparr>observation := placeholder_observation\<rparr>,
             analysis_step ''ok'' (generateMockResults ''ok'') (Some ''ok''),
             (new_search_step ''ok'')\<lparr>observation := placeholder_observation @ failure_note\<rparr>],
          finalOutput = ''ok''\<rparr>"
  by (simp add: generateResearchResponse_def initOpenAI_def generatePlanningStep_eq
        performIterativeResearch_def research_loop_two_rounds research_iteration_flat
        generateFinalOutput_eq next_reply_def chat_ok_def refined_query_ok no_marker_ok
        performSearch_unreachable hasMockResults_mock break_if_def Let_def or_default_def
        strip_quotes_ok)


section \<open>Properties of a whole run\<close>

lemma run_cases:
  assumes "fst (generateResearchResponse env q init ctx w) = Inr resp"
  obtains c rounds where
    "traceSteps resp = planning_step q c # concat rounds" "length rounds \<le> 2"
    "list_all round_shape rounds" "finalOutput resp \<noteq> []"
proof (cases "initOpenAI env")
  case (Inl e)
  with assms show ?thesis by (simp add: generateResearchResponse_no_key)
next
  case (Inr u)
  obtain r w' where run: "generateResearchResponse env q init ctx w = (r, w')"
    by (cases "generateResearchResponse env q init ctx w")
  with assms have "r = Inr resp" by simp
  with generateResearchResponse_summary[OF Inr run] that show ?thesis by blast
qed

text \<open>
  C1: whenever \<open>generateResearchResponse\<close> returns normally, the trace of the response
  has at least one step, its first step is the planning step, and the final output is
  not empty.
\<close>

theorem response_has_plan_and_output:
  assumes "fst (generateResearchResponse env q init ctx w) = Inr resp"
  shows "1 \<le> length (traceSteps resp) \<and> is_planning q (hd (traceSteps resp))
         \<and> finalOutput resp \<noteq> []"
  using run_cases[OF assms] by (metis One_nat_def Suc_le_eq planning_step_is_planning length_greater_0_conv list.sel(1) list.simps(3))

theorem response_has_plan_and_output_witness:
  "fst (generateResearchResponse (example_env chat_ok fetch_unreachable)
          ''best electric cars 2024'' [] [] initial_world) =
     Inr \<lparr>traceSteps =
            [planning_step ''best electric cars 2024'' (Some ''ok''),
             (new_search_step ''ok'')\<lparr>observation := placeholder_observation\<rparr>,
             analysis_step ''ok'' (generateMockResults ''ok'') (Some ''ok''),
             (new_search_step ''ok'')\<lparr>observation := placeholder_observation @ failure_note\<rparr>],
          finalOutput = ''ok''\<rparr>
   \<and> 1 \<le> length [planning_step ''best electric cars 2024'' (Some ''ok''),
             (new_search_step ''ok'')\<lparr>observation := placeholder_observation\<rparr>,
             analysis_step ''ok'' (generateMockResults ''ok'') (Some ''ok''),
             (new_search_step ''ok'')\<lparr>observation := placeholder_observation @ failure_note\<rparr>]
   \<and> is_planning ''best electric cars 2024'' (planning_step ''best electric cars 2024'' (Some ''ok''))
   \<and> ''ok'' \<noteq> []"
  using response_has_plan_and_output[OF run_unreachable_ok[of "''best electric cars 2024''" "[]" "[]" initial_world]]
    run_unreachable_ok[of "''best electric cars 2024''" "[]" "[]" initial_world]
  by simp

text \<open>
  C2: the refinement phase runs at most 2 rounds, whatever the model answers. The loop
  called with the cap 2 appends the steps of at most 2 rounds, and a whole run makes at
  most 2 refined-query requests, at most 2 analysis requests and at most 6 fetches (2
  searches of at most 3 attempts).
\<close>

theorem at_most_two_rounds:
  "(\<exists>rounds. fst (snd (performIterativeResearch env q plan ts 2 w)) = ts @ concat rounds
        \<and> length rounds \<le> 2 \<and> list_all round_shape rounds)
   \<and> count_requests refinement_system (llm_log (snd (generateResearchResponse env q init ctx w)))
        \<le> count_requests refinement_system (llm_log w) + 2
   \<and> count_requests analysis_system (llm_log (snd (generateResearchResponse env q init ctx w)))
        \<le> count_requests analysis_system (llm_log w) + 2
   \<and> length (fetch_log (snd (generateResearchResponse env q init ctx w)))
        \<le> length (fetch_log w) + 6"
proof -
  obtain rl ts' wl where loop: "research_loop env q 2 0 0 ts w = (rl, ts', wl)"
    by (cases "research_loop env q 2 0 0 ts w") auto
  from research_loop_summary[OF loop]
  have a: "\<exists>rounds. fst (snd (performIterativeResearch env q plan ts 2 w)) = ts @ concat rounds
        \<and> length rounds \<le> 2 \<and> list_all round_shape rounds"
    using loop by (auto simp: performIterativeResearch_def)
  obtain r w' where run: "generateResearchResponse env q init ctx w = (r, w')"
    by (cases "generateResearchResponse env q init ctx w")
  have b: "count_requests refinement_system (llm_log w') \<le> count_requests refinement_system (llm_log w) + 2
      \<and> count_requests analysis_system (llm_log w') \<le> count_requests analysis_system (llm_log w) + 2
      \<and> length (fetch_log w') \<le> length (fetch_log w) + 6"
  proof (cases "initOpenAI env")
    case (Inl e)
    with run show ?thesis by (simp add: generateResearchResponse_no_key)
  next
    case (Inr u)
    from generateResearchResponse_summary[OF Inr run] show ?thesis
      by (auto simp: count_requests_append)
  qed
  from a b run show ?thesis by simp
qed

lemma round_shape_length: "round_shape r \<Longrightarrow> length r \<le> 2"
  by (cases r rule: round_shape.cases) simp_all

lemma rounds_length: "list_all round_shape rounds \<Longrightarrow> length (concat rounds) \<le> 2 * length rounds"
proof (induction rounds)
  case Nil
  then show ?case by simp
next
  case (Cons r rounds)
  then have "length r \<le> 2" "length (concat rounds) \<le> 2 * length rounds"
    by (simp_all add: round_shape_length)
  then show ?case by simp
qed

text \<open>
  C10: the trace of a run that returns normally has at most 5 steps: the planning
  step, then for each of at most 2 rounds a search step, optionally followed by an
  analysis step.
\<close>

theorem trace_at_most_five_steps:
  assumes "fst (generateResearchResponse env q init ctx w) = Inr resp"
  shows "length (traceSteps resp) \<le> 5
         \<and> (\<exists>plan rounds. traceSteps resp = plan # concat rounds \<and> is_planning q plan
               \<and> length rounds \<le> 2 \<and> list_all round_shape rounds)"
proof -
  from run_cases[OF assms] obtain c rounds where r:
    "traceSteps resp = planning_step q c # concat rounds" "length rounds \<le> 2"
    "list_all round_shape rounds"
    by blast
  from rounds_length[OF r(3)] r(2) have "length (concat rounds) \<le> 4" by simp
  with r(1) have "length (traceSteps resp) \<le> 5" by simp
  moreover have "is_planning q (planning_step q c)" by simp
  ultimately show ?thesis using r by blast
qed

theorem trace_at_most_five_steps_witness:
  "fst (generateResearchResponse (example_env chat_ok fetch_unreachable) ''q'' [] [] initial_world) =
     Inr \<lparr>traceSteps =
            [planning_step ''q'' (Some ''ok''),
             (new_search_step ''ok'')\<lparr>observation := placeholder_observation\<rparr>,
             analysis_step ''ok'' (generateMockResults ''ok'') (Some ''ok''),
             (new_search_step ''ok'')\<lparr>observation := placeholder_observation @ failure_note\<rparr>],
          finalOutput = ''ok''\<rparr>
   \<and> length [planning_step ''q'' (Some ''ok''),
             (new_search_step ''ok'')\<lparr>observation := placeholder_observation\<rparr>,
             analysis_step ''ok'' (generateMockResults ''ok'') (Some ''ok''),
             (new_search_step ''ok'')\<lparr>observation := placeholder_observation @ failure_note\<rparr>] \<le> 5
   \<and> (\<exists>plan rounds.
          [planning_step ''q'' (Some ''ok''),
           (new_search_step ''ok'')\<lparr>observation := placeholder_observation\<rparr>,
           analysis_step ''ok'' (generateMockResults ''ok'') (Some ''ok''),
           (new_search_step ''ok'')\<lparr>observation := placeholder_observation @ failure_note\<rparr>]
          = plan # concat rounds \<and> is_planning ''q'' plan
          \<and> length rounds \<le> 2 \<and> list_all round_shape rounds)"
  using trace_at_most_five_steps[OF run_unreachable_ok[of "''q''" "[]" "[]" initial_world]]
    run_unreachable_ok[of "''q''" "[]" "[]" initial_world]
  by simp

lemmas run_simps =
  generateResearchResponse_def initOpenAI_def generatePlanningStep_eq
  performIterativeResearch_def research_loop_two_rounds research_iteration_flat
  generateFinalOutput_eq next_reply_def refined_query_ok no_marker_ok strip_quotes_ok
  performSearch_unreachable performSearch_real hasMockResults_mock real_result_not_mock
  break_if_def Let_def or_default_def system_messages_distinct

lemma run_analysis_fails:
  "generateResearchResponse (example_env chat_analysis_fails fetch_real) q init ctx w =
     (Inr \<lparr>traceSteps =
             [planning_step q (Some ''ok''),
              (new_search_step ''ok'')\<lparr>observation := error_observation\<rparr>,
              (new_search_step ''ok'')\<lparr>observation := error_observation\<rparr>],
           finalOutput = ''ok''\<rparr>,
      w\<lparr>llm_log := llm_log w @
           [(planning_system, planningPrompt q init ctx),
            (refinement_system, refinementPrompt q [planning_step q (Some ''ok'')]),
            (analysis_system, analysisPrompt ''ok'' [real_result]),
            (refinement_system, refinementPrompt q
               [planning_step q (Some ''ok''),
                (new_search_step ''ok'')\<lparr>observation := error_observation\<rparr>]),
            (analysis_system, analysisPrompt ''ok'' [real_result]),
            (final_system, finalPrompt q
               (planning_step q (Some ''ok'') # slice_last 2 (filter is_analysis_step
                  [planning_step q (Some ''ok''),
                   (new_search_step ''ok'')\<lparr>observation := error_observation\<rparr>,
                   (new_search_step ''ok'')\<lparr>observation := error_observation\<rparr>])) ctx)],
        fetch_log := fetch_log w @ [''ok'', ''ok'']\<rparr>)"
  by (simp add: run_simps chat_analysis_fails_def log_request_def)

lemma run_refinement_fails:
  "generateResearchResponse (example_env chat_refinement_fails fetch_real) q init ctx w =
     (Inl model_error,
      w\<lparr>llm_log := llm_log w @
           [(planning_system, planningPrompt q init ctx),
            (refinement_system, refinementPrompt q [planning_step q (Some ''ok'')])]\<rparr>)"
  by (simp add: run_simps chat_refinement_fails_def log_request_def)

text \<open>
  C5 as stated fails for the analysis request: it is made inside the \<open>try\<close> block of
  its round, so its failure is caught there. In this run the third and the fifth model
  request are analysis requests that fail, and the run still returns a response.
\<close>

theorem analysis_failure_counterexample:
  "failed_requests (example_env chat_analysis_fails fetch_real) 0
      (llm_log (snd (generateResearchResponse (example_env chat_analysis_fails fetch_real)
                       ''q'' [] [] initial_world)))
     = [(analysis_system, model_error), (analysis_system, model_error)]
   \<and> fst (generateResearchResponse (example_env chat_analysis_fails fetch_real)
            ''q'' [] [] initial_world)
     = Inr \<lparr>traceSteps =
              [planning_step ''q'' (Some ''ok''),
               (new_search_step ''ok'')\<lparr>observation := error_observation\<rparr>,
               (new_search_step ''ok'')\<lparr>observation := error_observation\<rparr>],
            finalOutput = ''ok''\<rparr>"
  by (simp add: run_analysis_fails initial_world_def chat_analysis_fails_def
        system_messages_distinct)

text \<open>
  C5, amended: a failure of a planning, query-refinement or synthesis request is not
  recovered: it ends the run, which rejects with that error; a failure of an analysis
  request is caught inside its round. A run rejects only with the configuration error
  (before any request) or with the error of such a request, so a failure of the search
  gateway never aborts it. Stated on the log of a run: when the API key is set, the
  errors of the failed requests other than analysis requests are exactly the error the
  run rejects with, and there are none when it returns a response.
\<close>

theorem model_failures_propagate:
  assumes "generateResearchResponse env q init ctx w = (r, w')"
  shows "case initOpenAI env of
           Inl e \<Rightarrow> r = Inl e \<and> w' = w
         | Inr u \<Rightarrow>
             failures_outside_analysis env (length (llm_log w))
               (drop (length (llm_log w)) (llm_log w')) = abort_errors r"
proof (cases "initOpenAI env")
  case (Inl e)
  with assms show ?thesis by (simp add: generateResearchResponse_no_key)
next
  case (Inr u)
  from generateResearchResponse_summary[OF Inr assms] obtain requests where
    "llm_log w' = llm_log w @ requests"
    "failures_outside_analysis env (length (llm_log w)) requests = abort_errors r"
    by blast
  with Inr show ?thesis by simp
qed

theorem model_failures_propagate_witness:
  "generateResearchResponse (example_env chat_refinement_fails fetch_real) ''q'' [] [] initial_world =
     (Inl model_error,
      initial_world\<lparr>llm_log := llm_log initial_world @
           [(planning_system, planningPrompt ''q'' [] []),
            (refinement_system, refinementPrompt ''q'' [planning_step ''q'' (Some ''ok'')])]\<rparr>)
   \<and> initOpenAI (example_env chat_refinement_fails fetch_real) = Inr ()
   \<and> failures_outside_analysis (example_env chat_refinement_fails fetch_real) 0
        [(planning_system, planningPrompt ''q'' [] []),
         (refinement_system, refinementPrompt ''q'' [planning_step ''q'' (Some ''ok'')])]
      = [model_error]"
  using model_failures_propagate[OF run_refinement_fails[of "''q''" "[]" "[]" initial_world]]
    run_refinement_fails[of "''q''" "[]" "[]" initial_world]
  by (simp add: initOpenAI_def initial_world_def)

section \<open>The consecutive-failure counter\<close>

text \<open>
  C3 as stated fails: a round is counted as a failure also when its search found real
  results and did not raise, namely when the analysis request of the round throws. Here
  the search returns one result on a real domain, and the counter goes from 0 to 1.
\<close>

theorem failure_count_counterexample:
  "fst (performSearch (example_env chat_analysis_fails fetch_real) ''ok''
          (log_request refinement_system (refinementPrompt ''q'' []) initial_world))
     = Inr [real_result]
   \<and> \<not> hasMockResults [real_result]
   \<and> fst (snd (research_iteration (example_env chat_analysis_fails fetch_real) ''q'' 0 []
                 initial_world)) = 1
   \<and> fst (snd (snd (research_iteration (example_env chat_analysis_fails fetch_real) ''q'' 0 []
                     initial_world)))
     = [(new_search_step ''ok'')\<lparr>observation := error_observation\<rparr>]"
  by (simp add: research_iteration_flat next_reply_def chat_analysis_fails_def refined_query_ok
        performSearch_real real_result_not_mock system_messages_distinct Let_def)

text \<open>
  C3, amended: in a round whose search returned \<open>rs\<close>, the counter is increased by one
  when all results are on placeholder domains and reset to zero otherwise, and it is
  increased by one more when the analysis request of the round throws (the search call
  itself never raises). As soon as the counter is 2 or more the round ends the loop, so
  no further round is started, and the observation of the round's search step ends with
  the note about proceeding with available information.
\<close>

theorem round_failure_counter:
  assumes refine: "next_reply env w refinement_system (refinementPrompt q ts) = Inr c"
    and search: "performSearch env (refined_query q c)
                   (log_request refinement_system (refinementPrompt q ts) w) = (Inr rs, w2)"
    and round: "research_iteration env q cf ts w = (r, cf', ts', w')"
  shows "cf' = (if hasMockResults rs then cf + 1 else 0)
               + (if \<not> (hasMockResults rs \<and> 2 \<le> cf + 1)
                     \<and> isl (next_reply env w2 analysis_system (analysisPrompt (refined_query q c) rs))
                  then 1 else 0)
         \<and> (2 \<le> cf' \<longrightarrow>
               r = Inr IterBreak
               \<and> suffix failure_note (observation (ts' ! length ts))
               \<and> (\<forall>m i. i < m \<longrightarrow> research_loop env q m i cf ts w = (Inr (), ts', w')))"
proof -
  note eq = research_iteration_searched[OF refine search, of cf]
  have count: "cf' = (if hasMockResults rs then cf + 1 else 0)
               + (if \<not> (hasMockResults rs \<and> 2 \<le> cf + 1)
                     \<and> isl (next_reply env w2 analysis_system (analysisPrompt (refined_query q c) rs))
                  then 1 else 0)"
    using eq round by (auto simp: Let_def split: if_splits sum.splits)
  have stop: "r = Inr IterBreak \<and> suffix failure_note (observation (ts' ! length ts))"
    if "2 \<le> cf'"
    using eq round that
    by (auto simp: Let_def suffix_def split: if_splits sum.splits)
  have "research_loop env q m i cf ts w = (Inr (), ts', w')" if "2 \<le> cf'" "i < m" for m i
    using stop[OF that(1)] round that(2)
    by (simp add: research_loop.simps[of env q m i cf ts w])
  with count stop show ?thesis by blast
qed

theorem round_failure_counter_witness:
  "next_reply (example_env chat_ok fetch_unreachable) initial_world refinement_system
      (refinementPrompt ''q'' [planning_step ''q'' (Some ''ok'')]) = Inr (Some ''ok'')
   \<and> performSearch (example_env chat_ok fetch_unreachable) (refined_query ''q'' (Some ''ok''))
        (log_request refinement_system
           (refinementPrompt ''q'' [planning_step ''q'' (Some ''ok'')]) initial_world)
      = (Inr (generateMockResults ''ok''),
         (log_request refinement_system
            (refinementPrompt ''q'' [planning_step ''q'' (Some ''ok'')]) initial_world)
          \<lparr>fetch_log := [''ok'', ''ok'', ''ok''], sleep_log := [1500, 3000]\<rparr>)
   \<and> research_iteration (example_env chat_ok fetch_unreachable) ''q'' 1
        [planning_step ''q'' (Some ''ok'')] initial_world
      = (Inr IterBreak, 2,
         [planning_step ''q'' (Some ''ok''),
          (new_search_step ''ok'')\<lparr>observation := placeholder_observation @ failure_note\<rparr>],
         (log_request refinement_system
            (refinementPrompt ''q'' [planning_step ''q'' (Some ''ok'')]) initial_world)
          \<lparr>fetch_log := [''ok'', ''ok'', ''ok''], sleep_log := [1500, 3000]\<rparr>)
   \<and> suffix failure_note
        (observation ([planning_step ''q'' (Some ''ok''),
          (new_search_step ''ok'')\<lparr>observation := placeholder_observation @ failure_note\<rparr>] ! 1))
   \<and> research_loop (example_env chat_ok fetch_unreachable) ''q'' 2 1 1
        [planning_step ''q'' (Some ''ok'')] initial_world
      = (Inr (),
         [planning_step ''q'' (Some ''ok''),
          (new_search_step ''ok'')\<lparr>observation := placeholder_observation @ failure_note\<rparr>],
         (log_request refinement_system
            (refinementPrompt ''q'' [planning_step ''q'' (Some ''ok'')]) initial_world)
          \<lparr>fetch_log := [''ok'', ''ok'', ''ok''], sleep_log := [1500, 3000]\<rparr>)"
proof -
  let ?E = "example_env chat_ok fetch_unreachable"
  let ?ts = "[planning_step ''q'' (Some ''ok'')]"
  let ?w1 = "log_request refinement_system (refinementPrompt ''q'' ?ts) initial_world"
  let ?w2 = "?w1\<lparr>fetch_log := [''ok'', ''ok'', ''ok''], sleep_log := [1500, 3000]\<rparr>"
  let ?ts' = "[planning_step ''q'' (Some ''ok''),
          (new_search_step ''ok'')\<lparr>observation := placeholder_observation @ failure_note\<rparr>]"
  have refine: "next_reply ?E initial_world refinement_system (refinementPrompt ''q'' ?ts)
                  = Inr (Some ''ok'')"
    by (simp add: next_reply_def chat_ok_def)
  have search: "performSearch ?E (refined_query ''q'' (Some ''ok'')) ?w1
                  = (Inr (generateMockResults ''ok''), ?w2)"
    by (simp add: performSearch_unreachable refined_query_ok strip_quotes_ok log_request_def
          initial_world_def numeral_3_eq_3)
  have round: "research_iteration ?E ''q'' 1 ?ts initial_world = (Inr IterBreak, 2, ?ts', ?w2)"
    using research_iteration_searched[OF refine search, of 1]
    by (simp add: hasMockResults_mock refined_query_ok Let_def)
  from round_failure_counter[OF refine search round]
  have "suffix failure_note (observation (?ts' ! length ?ts))"
    and "research_loop ?E ''q'' 2 1 1 ?ts initial_world = (Inr (), ?ts', ?w2)"
    by simp_all
  with refine search round show ?thesis by simp
qed

section \<open>The unreachable provider\<close>

lemma performSearch_down:
  assumes "\<forall>n q'. attempt_kind (fetch_serper env n q') \<noteq> None"
  shows "\<exists>q' w'. performSearch env query w = (Inr (generateMockResults q'), w')"
proof (cases "\<exists>apiKey. SERPER_API_KEY env = Some apiKey \<and> apiKey \<noteq> []")
  case False
  then show ?thesis by (auto simp: performSearch_def split: option.splits)
next
  case True
  then obtain apiKey where key: "SERPER_API_KEY env = Some apiKey" "apiKey \<noteq> []" by blast
  from assms obtain k0 k1 k2 where
    "attempt_kind (fetch_serper env (length (fetch_log w)) (strip_quotes query)) = Some k0"
    "attempt_kind (fetch_serper env (length (fetch_log w) + 1) (strip_quotes query)) = Some k1"
    "attempt_kind (fetch_serper env (length (fetch_log w) + 2) (strip_quotes query)) = Some k2"
    by (meson option.exhaust)
  from performSearch_exhausted[OF key this] show ?thesis by blast
qed

lemma performSearch_down_mock:
  assumes "\<forall>n q'. attempt_kind (fetch_serper env n q') \<noteq> None"
  shows "hasMockResults (projr (fst (performSearch env query w)))"
  using performSearch_down[OF assms, of query w] by (auto simp: hasMockResults_mock)

lemma run_provider_down:
  assumes down: "\<forall>n q'. attempt_kind (fetch_serper env n q') \<noteq> None"
    and models: "\<forall>n s p. \<not> isl (chat_completions_create env n s p)"
    and key: "initOpenAI env = Inr ()"
  shows "\<exists>plan s1 a1 s2 out.
           fst (generateResearchResponse env q init ctx w) =
             Inr \<lparr>traceSteps = (if has_sufficiency_marker a1 then [plan, s1, a1]
                                else [plan, s1, a1, s2]),
                  finalOutput = out\<rparr>
           \<and> out \<noteq> [] \<and> is_planning q plan
           \<and> is_search s1 \<and> observation s1 = placeholder_observation \<and> is_analysis a1
           \<and> is_search s2 \<and> observation s2 = placeholder_observation @ failure_note"
proof -
  define g where "g = (\<lambda>n s p. projr (chat_completions_create env n s p))"
  have chat: "chat_completions_create env n s p = Inr (g n s p)" for n s p
  proof (cases "chat_completions_create env n s p")
    case (Inl e)
    then have "isl (chat_completions_create env n s p)" by simp
    with models show ?thesis by blast
  next
    case (Inr c)
    then show ?thesis by (simp add: g_def)
  qed
  have reply: "next_reply env w' s p = Inr (g (length (llm_log w')) s p)" for w' s p
    by (simp add: next_reply_def chat)
  note mock = performSearch_down_mock[OF down]
  let ?pp = "planningPrompt q init ctx"
  let ?P = "planning_step q (g (length (llm_log w)) planning_system ?pp)"
  let ?w1 = "log_request planning_system ?pp w"
  let ?rp1 = "refinementPrompt q [?P]"
  let ?rq1 = "refined_query q (g (length (llm_log ?w1)) refinement_system ?rp1)"
  let ?w2 = "log_request refinement_system ?rp1 ?w1"
  let ?rs1 = "projr (fst (performSearch env ?rq1 ?w2))"
  let ?w3 = "snd (performSearch env ?rq1 ?w2)"
  let ?ap1 = "analysisPrompt ?rq1 ?rs1"
  let ?S1 = "(new_search_step ?rq1)\<lparr>observation := placeholder_observation\<rparr>"
  let ?A1 = "analysis_step ?rq1 ?rs1 (g (length (llm_log ?w3)) analysis_system ?ap1)"
  let ?w4 = "log_request analysis_system ?ap1 ?w3"
  let ?rp2 = "refinementPrompt q [?P, ?S1, ?A1]"
  let ?rq2 = "refined_query q (g (length (llm_log ?w4)) refinement_system ?rp2)"
  let ?w5 = "log_request refinement_system ?rp2 ?w4"
  let ?w6 = "snd (performSearch env ?rq2 ?w5)"
  let ?S2 = "(new_search_step ?rq2)\<lparr>observation := placeholder_observation @ failure_note\<rparr>"
  have round1: "research_iteration env q 0 [?P] ?w1 =
                  (Inr (break_if (has_sufficiency_marker ?A1)), Suc 0, [?P, ?S1, ?A1], ?w4)"
    by (simp add: research_iteration_flat reply mock Let_def)
  have round2: "research_iteration env q (Suc 0) [?P, ?S1, ?A1] ?w4 =
                  (Inr IterBreak, 2, [?P, ?S1, ?A1, ?S2], ?w6)"
    by (simp add: research_iteration_flat reply mock Let_def)
  have loop: "research_loop env q 2 0 0 [?P] ?w1 =
                (if has_sufficiency_marker ?A1 then (Inr (), [?P, ?S1, ?A1], ?w4)
                 else (Inr (), [?P, ?S1, ?A1, ?S2], ?w6))"
    by (simp add: research_loop_two_rounds round1 round2 break_if_def)
  have out: "or_default c ''Unable to generate a response based on the research.'' \<noteq> []" for c
    by (rule or_default_nonempty) simp
  have fin: "\<exists>out. fst (generateResearchResponse env q init ctx w) =
                 Inr \<lparr>traceSteps = ?P # rest, finalOutput = out\<rparr> \<and> out \<noteq> []"
    if "research_loop env q 2 0 0 [?P] ?w1 = (Inr (), ?P # rest, W)" for rest W
    using key that out
    by (simp add: generateResearchResponse_def generatePlanningStep_eq reply
          performIterativeResearch_def generateFinalOutput_eq)
  have "\<exists>out. fst (generateResearchResponse env q init ctx w) =
             Inr \<lparr>traceSteps = (if has_sufficiency_marker ?A1 then [?P, ?S1, ?A1]
                                else [?P, ?S1, ?A1, ?S2]),
                  finalOutput = out\<rparr> \<and> out \<noteq> []"
  proof (cases "has_sufficiency_marker ?A1")
    case True
    with loop have "research_loop env q 2 0 0 [?P] ?w1 = (Inr (), ?P # [?S1, ?A1], ?w4)"
      by simp
    from fin[OF this] True show ?thesis by simp
  next
    case False
    with loop have "research_loop env q 2 0 0 [?P] ?w1 = (Inr (), ?P # [?S1, ?A1, ?S2], ?w6)"
      by simp
    from fin[OF this] False show ?thesis by simp
  qed
  then obtain out where
    "fst (generateResearchResponse env q init ctx w) =
             Inr \<lparr>traceSteps = (if has_sufficiency_marker ?A1 then [?P, ?S1, ?A1]
                                else [?P, ?S1, ?A1, ?S2]),
                  finalOutput = out\<rparr>" "out \<noteq> []"
    by blast
  moreover have "is_planning q ?P" "is_search ?S1" "observation ?S1 = placeholder_observation"
    "is_analysis ?A1" "is_search ?S2" "observation ?S2 = placeholder_observation @ failure_note"
    by simp_all
  ultimately show ?thesis by blast
qed

lemma strip_quotes_cars: "strip_quotes ''best electric cars 2024'' = ''best electric cars 2024''"
  by (simp add: strip_quotes_def is_quote_def)

lemma processQuery_unreachable_ok:
  "fst (processQuery (example_env chat_ok fetch_unreachable) q chat w) =
     Inr \<lparr>traceSteps =
            [planning_step q (Some ''ok''),
             (new_search_step ''ok'')\<lparr>observation := placeholder_observation\<rparr>,
             analysis_step ''ok'' (generateMockResults ''ok'') (Some ''ok''),
             (new_search_step ''ok'')\<lparr>observation := placeholder_observation @ failure_note\<rparr>],
          finalOutput = ''ok''\<rparr>"
  by (simp add: processQuery_def performSearch_unreachable run_unreachable_ok)

text \<open>
  C4 as stated fails: the counter starts at 0 inside the loop and the initial search is
  not counted. With the provider unreachable and a model that answers \<open>ok\<close>, the
  initial results are synthetic, the counter is 1 after round 1, the loop goes on to
  round 2, and the trace has the steps of two rounds.
\<close>

theorem unreachable_provider_counterexample:
  "fst (performSearch (example_env chat_ok fetch_unreachable) ''best electric cars 2024''
          initial_world) = Inr (generateMockResults ''best electric cars 2024'')
   \<and> fst (research_iteration (example_env chat_ok fetch_unreachable) ''best electric cars 2024'' 0
            [planning_step ''best electric cars 2024'' (Some ''ok'')]
            (snd (generatePlanningStep (example_env chat_ok fetch_unreachable)
                    ''best electric cars 2024''
                    (generateMockResults ''best electric cars 2024'') []
                    (snd (performSearch (example_env chat_ok fetch_unreachable)
                            ''best electric cars 2024'' initial_world)))))
       = Inr IterNext
   \<and> fst (snd (research_iteration (example_env chat_ok fetch_unreachable)
            ''best electric cars 2024'' 0
            [planning_step ''best electric cars 2024'' (Some ''ok'')]
            (snd (generatePlanningStep (example_env chat_ok fetch_unreachable)
                    ''best electric cars 2024''
                    (generateMockResults ''best electric cars 2024'') []
                    (snd (performSearch (example_env chat_ok fetch_unreachable)
                            ''best electric cars 2024'' initial_world))))))
       = 1
   \<and> fst (processQuery (example_env chat_ok fetch_unreachable) ''best electric cars 2024'' None
            initial_world)
       = Inr \<lparr>traceSteps =
            [planning_step ''best electric cars 2024'' (Some ''ok''),
             (new_search_step ''ok'')\<lparr>observation := placeholder_observation\<rparr>,
             analysis_step ''ok'' (generateMockResults ''ok'') (Some ''ok''),
             (new_search_step ''ok'')\<lparr>observation := placeholder_observation @ failure_note\<rparr>],
          finalOutput = ''ok''\<rparr>"
  by (simp add: processQuery_unreachable_ok performSearch_unreachable strip_quotes_cars
        research_iteration_flat next_reply_def chat_ok_def refined_query_ok no_marker_ok
        hasMockResults_mock break_if_def Let_def)

text \<open>
  C4, amended: for the query "best electric cars 2024" (and any other) with the provider
  failing on every call and every model request answered, the run completes on synthetic
  results only and produces a non-empty final output. The initial search is not
  counted: after round 1 the counter is 1, so the round's observation carries no note
  and the analysis is made; unless that analysis contains a sufficiency marker, round 2
  follows, the counter reaches 2 there, and the loop halts with the note in the
  observation of the second search step.
\<close>

theorem unreachable_provider_run:
  assumes down: "\<forall>n q'. attempt_kind (fetch_serper env n q') \<noteq> None"
    and models: "\<forall>n s p. \<not> isl (chat_completions_create env n s p)"
    and key: "initOpenAI env = Inr ()"
  shows "hasMockResults (projr (fst (performSearch env q w)))
         \<and> (\<exists>plan s1 a1 s2 out.
               fst (processQuery env q chat w) =
                 Inr \<lparr>traceSteps = (if has_sufficiency_marker a1 then [plan, s1, a1]
                                    else [plan, s1, a1, s2]),
                      finalOutput = out\<rparr>
               \<and> out \<noteq> [] \<and> is_planning q plan
               \<and> is_search s1 \<and> observation s1 = placeholder_observation \<and> is_analysis a1
               \<and> is_search s2 \<and> observation s2 = placeholder_observation @ failure_note)"
proof -
  from performSearch_down[OF down, of q w] obtain q0 w0 where
    ps: "performSearch env q w = (Inr (generateMockResults q0), w0)"
    by blast
  then have "processQuery env q chat w =
               generateResearchResponse env q (generateMockResults q0) (conversation_context chat) w0"
    by (simp add: processQuery_def)
  with run_provider_down[OF down models key, of q "generateMockResults q0"
      "conversation_context chat" w0] performSearch_down_mock[OF down, of q w]
  show ?thesis by simp
qed

theorem unreachable_provider_run_witness:
  "(\<forall>n q'. attempt_kind (fetch_serper (example_env chat_ok fetch_unreachable) n q') \<noteq> None)
   \<and> (\<forall>n s p. \<not> isl (chat_completions_create (example_env chat_ok fetch_unreachable) n s p))
   \<and> initOpenAI (example_env chat_ok fetch_unreachable) = Inr ()
   \<and> hasMockResults (projr (fst (performSearch (example_env chat_ok fetch_unreachable)
                                  ''best electric cars 2024'' initial_world)))
   \<and> (\<exists>plan s1 a1 s2 out.
         fst (processQuery (example_env chat_ok fetch_unreachable) ''best electric cars 2024''
                None initial_world) =
           Inr \<lparr>traceSteps = (if has_sufficiency_marker a1 then [plan, s1, a1]
                              else [plan, s1, a1, s2]),
                finalOutput = out\<rparr>
         \<and> out \<noteq> [] \<and> is_planning ''best electric cars 2024'' plan
         \<and> is_search s1 \<and> observation s1 = placeholder_observation \<and> is_analysis a1
         \<and> is_search s2 \<and> observation s2 = placeholder_observation @ failure_note)"
proof -
  let ?E = "example_env chat_ok fetch_unreachable"
  have down: "\<forall>n q'. attempt_kind (fetch_serper ?E n q') \<noteq> None"
    by (simp add: fetch_unreachable_def attempt_kind_def)
  have models: "\<forall>n s p. \<not> isl (chat_completions_create ?E n s p)"
    by (simp add: chat_ok_def)
  have key: "initOpenAI ?E = Inr ()"
    by (simp add: initOpenAI_def)
  from unreachable_provider_run[OF down models key, of "''best electric cars 2024''"
      initial_world None] down models key
  show ?thesis by blast
qed

section \<open>Synthesis\<close>





lemma is_analysis_step_search: "\<not> is_analysis_step ((new_search_step rq)\<lparr>observation := obs\<rparr>)"
  by (simp add: is_analysis_step_def new_search_step_def)

lemma str_includes_Nil: "str_includes s []"
  by (cases s) simp_all

lemma str_includes_append_right: "str_includes t s \<Longrightarrow> str_includes (t @ b) s"
proof (induction t)
  case Nil
  then show ?case by (simp add: str_includes_Nil)
next
  case (Cons c cs)
  from Cons.prems have "prefix s (c # cs) \<or> str_includes cs s" by simp
  then show ?case
  proof
    assume "prefix s (c # cs)"
    then have "prefix s ((c # cs) @ b)" by (rule prefix_prefix)
    then show ?thesis by simp
  next
    assume "str_includes cs s"
    then have "str_includes (cs @ b) s" by (rule Cons.IH)
    then show ?thesis by simp
  qed
qed

text \<open>
  The filter looks at the action only, so it also keeps the planning step when the
  query itself contains the text the filter looks for.
\<close>

lemma planning_step_passes_filter:
  assumes "str_includes q ''Analyzing results''"
  shows "is_analysis_step (planning_step q c)"
proof -
  from assms have "str_includes (q @ [CHR 0x22]) ''Analyzing results''"
    by (rule str_includes_append_right)
  then have "str_includes (''Initial planning for query: '' @ [CHR 0x22] @ (q @ [CHR 0x22]))
               ''Analyzing results''"
    using str_includes_append_left[of "q @ [CHR 0x22]" "''Analyzing results''"
        "''Initial planning for query: '' @ [CHR 0x22]"]
    by simp
  moreover have "action (planning_step q c)
                   = ''Initial planning for query: '' @ [CHR 0x22] @ (q @ [CHR 0x22])"
    by (simp add: planning_step_def Let_def)
  moreover have "reflection (planning_step q c) = Some (or_default c ''No plan generated.'')"
    by (simp add: planning_step_def Let_def)
  moreover have "or_default c ''No plan generated.'' \<noteq> []"
    by (rule or_default_nonempty) simp
  ultimately show ?thesis
    unfolding is_analysis_step_def by simp
qed



















text \<open>
  When the query contains the filter's text and no analysis step was pushed, the
  selection is the planning step twice.
\<close>

lemma planning_step_selected_twice:
  "fst (generateResearchResponse (example_env chat_analysis_fails fetch_real)
          ''Analyzing results'' [] [] initial_world) =
     Inr \<lparr>traceSteps =
            [planning_step ''Analyzing results'' (Some ''ok''),
             (new_search_step ''ok'')\<lparr>observation := error_observation\<rparr>,
             (new_search_step ''ok'')\<lparr>observation := error_observation\<rparr>],
          finalOutput = ''ok''\<rparr>
   \<and> essentialSteps
        [planning_step ''Analyzing results'' (Some ''ok''),
         (new_search_step ''ok'')\<lparr>observation := error_observation\<rparr>,
         (new_search_step ''ok'')\<lparr>observation := error_observation\<rparr>]
     = Inr [planning_step ''Analyzing results'' (Some ''ok''),
            planning_step ''Analyzing results'' (Some ''ok'')]"
proof -
  have "is_analysis_step (planning_step ''Analyzing results'' (Some ''ok''))"
    by (rule planning_step_passes_filter) simp
  then show ?thesis
    by (simp add: run_analysis_fails essentialSteps_Cons is_analysis_step_search slice_last_def)
qed



end
